theory Spec2Isabelle
  imports Complex_Main
begin

section \<open>JavaScript values used by the roster parser\<close>

subsection \<open>Strings\<close>

text \<open>
  A JavaScript string is a sequence of UTF-16 code units, and \<open>length\<close>, indexing,
  \<open>includes\<close> and the regular expressions of the parser (none has the \<open>u\<close> flag) all
  work on code units. A string is therefore a list of code units, each a natural number
  below 65536. The source file is in Unicode normal form C; every literal below is the
  list of the code units of the literal in the source, in order. The code units beyond
  ASCII that occur below are Latin letters with Vietnamese diacritics:
  192 = U+00C0 capital letter a with grave; 193 = U+00C1 capital letter a with acute;
  201 = U+00C9 capital letter e with acute; 202 = U+00CA capital letter e with circumflex;
  204 = U+00CC capital letter i with grave; 210 = U+00D2 capital letter o with grave;
  221 = U+00DD capital letter y with acute; 224 = U+00E0 small letter a with grave;
  225 = U+00E1 small letter a with acute; 226 = U+00E2 small letter a with circumflex;
  234 = U+00EA small letter e with circumflex; 236 = U+00EC small letter i with grave;
  237 = U+00ED small letter i with acute; 242 = U+00F2 small letter o with grave;
  243 = U+00F3 small letter o with acute; 244 = U+00F4 small letter o with circumflex;
  253 = U+00FD small letter y with acute; 259 = U+0103 small letter a with breve;
  272 = U+0110 capital letter d with stroke; 273 = U+0111 small letter d with stroke;
  417 = U+01A1 small letter o with horn; 431 = U+01AF capital letter u with horn;
  432 = U+01B0 small letter u with horn; 7840 = U+1EA0 capital letter a with dot below;
  7841 = U+1EA1 small letter a with dot below;
  7843 = U+1EA3 small letter a with hook above;
  7845 = U+1EA5 small letter a with circumflex and acute;
  7847 = U+1EA7 small letter a with circumflex and grave;
  7852 = U+1EAC capital letter a with circumflex and dot below;
  7853 = U+1EAD small letter a with circumflex and dot below;
  7870 = U+1EBE capital letter e with circumflex and acute;
  7871 = U+1EBF small letter e with circumflex and acute;
  7874 = U+1EC2 capital letter e with circumflex and hook above;
  7875 = U+1EC3 small letter e with circumflex and hook above;
  7877 = U+1EC5 small letter e with circumflex and tilde;
  7878 = U+1EC6 capital letter e with circumflex and dot below;
  7879 = U+1EC7 small letter e with circumflex and dot below;
  7880 = U+1EC8 capital letter i with hook above;
  7881 = U+1EC9 small letter i with hook above;
  7883 = U+1ECB small letter i with dot below;
  7884 = U+1ECC capital letter o with dot below;
  7885 = U+1ECD small letter o with dot below;
  7886 = U+1ECE capital letter o with hook above;
  7888 = U+1ED0 capital letter o with circumflex and acute;
  7889 = U+1ED1 small letter o with circumflex and acute;
  7892 = U+1ED4 capital letter o with circumflex and hook above;
  7896 = U+1ED8 capital letter o with circumflex and dot below;
  7897 = U+1ED9 small letter o with circumflex and dot below;
  7899 = U+1EDB small letter o with horn and acute;
  7900 = U+1EDC capital letter o with horn and grave;
  7901 = U+1EDD small letter o with horn and grave;
  7906 = U+1EE2 capital letter o with horn and dot below;
  7907 = U+1EE3 small letter o with horn and dot below;
  7909 = U+1EE5 small letter u with dot below;
  7911 = U+1EE7 small letter u with hook above;
  7917 = U+1EED small letter u with horn and hook above;
  7919 = U+1EEF small letter u with horn and tilde;
  7921 = U+1EF1 small letter u with horn and dot below;
  7926 = U+1EF6 capital letter y with hook above;
  7927 = U+1EF7 small letter y with hook above; 7929 = U+1EF9 small letter y with tilde.
\<close>

type_synonym jsstring = "nat list"

text \<open>
  \<open>WhiteSpace\<close> and \<open>LineTerminator\<close> of ECMAScript: what \<open>trim\<close> strips, what
  \<open>\s\<close> matches and what \<open>parseFloat\<close> skips. TAB, LF, VT, FF, CR, SP, NBSP, U+1680,
  U+2000..U+200A, U+2028, U+2029, U+202F, U+205F, U+3000, U+FEFF.
\<close>

definition isWhiteSpace :: "nat \<Rightarrow> bool" where
  "isWhiteSpace c \<longleftrightarrow>
     c = 9 \<or> c = 10 \<or> c = 11 \<or> c = 12 \<or> c = 13 \<or> c = 32 \<or> c = 160 \<or> c = 5760 \<or>
     (8192 \<le> c \<and> c \<le> 8202) \<or> c = 8232 \<or> c = 8233 \<or> c = 8239 \<or> c = 8287 \<or>
     c = 12288 \<or> c = 65279"

definition trimStart :: "jsstring \<Rightarrow> jsstring" where
  "trimStart s = dropWhile isWhiteSpace s"

definition trim :: "jsstring \<Rightarrow> jsstring" where
  "trim s = rev (dropWhile isWhiteSpace (rev (dropWhile isWhiteSpace s)))"

text \<open>The class \<open>\d\<close> without the \<open>u\<close> flag: the ten ASCII digits.\<close>

definition isDigit :: "nat \<Rightarrow> bool" where
  "isDigit c \<longleftrightarrow> 48 \<le> c \<and> c \<le> 57"

text \<open>\<open>/\d/.test(s)\<close> and \<open>/^\d+$/.test(s)\<close>.\<close>

definition hasDigit :: "jsstring \<Rightarrow> bool" where
  "hasDigit s = list_ex isDigit s"

definition allDigits :: "jsstring \<Rightarrow> bool" where
  "allDigits s \<longleftrightarrow> s \<noteq> [] \<and> list_all isDigit s"

fun startsWith :: "jsstring \<Rightarrow> jsstring \<Rightarrow> bool" where
  "startsWith s [] = True"
| "startsWith [] (p # ps) = False"
| "startsWith (c # cs) (p # ps) = (c = p \<and> startsWith cs ps)"

fun includesStr :: "jsstring \<Rightarrow> jsstring \<Rightarrow> bool" where
  "includesStr [] sub = (sub = [])"
| "includesStr (c # cs) sub = (startsWith (c # cs) sub \<or> includesStr cs sub)"

text \<open>\<open>s.replace(',', '.')\<close>: a string pattern replaces the first occurrence only.\<close>

fun replaceComma :: "jsstring \<Rightarrow> jsstring" where
  "replaceComma [] = []"
| "replaceComma (c # cs) = (if c = 44 then 46 # cs else c # replaceComma cs)"

text \<open>\<open>parts.join(' ')\<close> on a list of strings.\<close>

fun joinSpace :: "jsstring list \<Rightarrow> jsstring" where
  "joinSpace [] = []"
| "joinSpace [s] = s"
| "joinSpace (s # t # ss) = s @ 32 # joinSpace (t # ss)"

text \<open>The decimal numeral of a non-negative integer, as a template literal prints it.\<close>

fun decimal :: "nat \<Rightarrow> jsstring" where
  "decimal n = (if n < 10 then [48 + n] else decimal (n div 10) @ [48 + n mod 10])"

declare decimal.simps [simp del]

subsection \<open>Numbers\<close>

text \<open>
  A JavaScript number is an IEEE 754 double: NaN, the two infinities, negative zero, or a
  finite value, kept as the rational it denotes (\<open>Fin 0\<close> is positive zero).
\<close>

datatype jsnum = NaN | PosInf | NegInf | NegZero | Fin rat

definition isNaN :: "jsnum \<Rightarrow> bool" where
  "isNaN x \<longleftrightarrow> x = NaN"

text \<open>The comparisons \<open><\<close> and \<open><=\<close>: false when either side is NaN; the zeros are equal.\<close>

fun rank :: "jsnum \<Rightarrow> int" where
  "rank NegInf = - 1"
| "rank PosInf = 1"
| "rank x = 0"

fun magnitude :: "jsnum \<Rightarrow> rat" where
  "magnitude (Fin q) = q"
| "magnitude x = 0"

definition jsLess :: "jsnum \<Rightarrow> jsnum \<Rightarrow> bool" where
  "jsLess a b \<longleftrightarrow> a \<noteq> NaN \<and> b \<noteq> NaN \<and>
     (rank a < rank b \<or> (rank a = 0 \<and> rank b = 0 \<and> magnitude a < magnitude b))"

definition jsLessEq :: "jsnum \<Rightarrow> jsnum \<Rightarrow> bool" where
  "jsLessEq a b \<longleftrightarrow> a \<noteq> NaN \<and> b \<noteq> NaN \<and>
     (rank a < rank b \<or> (rank a = rank b \<and> magnitude a \<le> magnitude b))"

fun negate :: "jsnum \<Rightarrow> jsnum" where
  "negate NaN = NaN"
| "negate PosInf = NegInf"
| "negate NegInf = PosInf"
| "negate NegZero = Fin 0"
| "negate (Fin q) = (if q = 0 then NegZero else Fin (- q))"

text \<open>
  Rounding of the non-negative rational \<open>a / b\<close> to the nearest double, ties to even
  (the function written F in ECMAScript): 53 significant bits, least exponent -1074 for
  subnormals, and infinity from \<open>2 ^ 1024\<close> on.
\<close>

fun bitLength :: "nat \<Rightarrow> nat" where
  "bitLength n = (if n = 0 then 0 else Suc (bitLength (n div 2)))"

declare bitLength.simps [simp del]

definition floorLog2 :: "nat \<Rightarrow> nat \<Rightarrow> int" where
  "floorLog2 a b =
     (let e0 = int (bitLength a) - int (bitLength b)
      in if (if 0 \<le> e0 then b * 2 ^ nat e0 \<le> a else b \<le> a * 2 ^ nat (- e0))
         then e0 else e0 - 1)"

definition roundHalfEven :: "nat \<Rightarrow> nat \<Rightarrow> nat" where
  "roundHalfEven a b =
     (let q = a div b; r = a mod b
      in if 2 * r < b then q else if b < 2 * r then q + 1
         else if even q then q else q + 1)"

definition toDouble :: "nat \<Rightarrow> nat \<Rightarrow> jsnum" where
  "toDouble a b =
     (if a = 0 then Fin 0
      else let s = max (floorLog2 a b) (- 1022) - 52
           in if 0 \<le> s
              then (let v = roundHalfEven a (b * 2 ^ nat s) * 2 ^ nat s
                    in if 2 ^ 1024 \<le> v then PosInf else Fin (of_nat v))
              else Fin (of_nat (roundHalfEven (a * 2 ^ nat (- s)) b) / of_nat (2 ^ nat (- s))))"

text \<open>The value of a string of decimal digits.\<close>

definition digitsVal :: "jsstring \<Rightarrow> nat" where
  "digitsVal ds = foldl (\<lambda>a c. 10 * a + (c - 48)) 0 ds"

text \<open>
  \<open>parseFloat\<close>: leading white space is skipped, then the longest prefix that is a
  \<open>StrDecimalLiteral\<close> is read: an optional sign, then \<open>Infinity\<close>, or digits with an
  optional fraction, or a dot and digits, then an exponent when it is complete. No such
  prefix gives NaN. The value read is rounded to a double. (For a literal of more than
  20 significant digits ECMAScript also allows rounding the literal cut after the 20th
  digit; the model rounds the exact value.)
\<close>

text \<open>The exponent part at the head of \<open>s\<close>: \<open>e\<close> or \<open>E\<close>, an optional sign, digits.\<close>

definition exponentPart :: "jsstring \<Rightarrow> int" where
  "exponentPart s =
     (case s of
        [] \<Rightarrow> 0
      | c # r \<Rightarrow>
          if c = 101 \<or> c = 69 then
            (case r of
               [] \<Rightarrow> 0
             | d # r' \<Rightarrow>
                 if d = 43 then (if takeWhile isDigit r' = [] then 0
                                 else int (digitsVal (takeWhile isDigit r')))
                 else if d = 45 then (if takeWhile isDigit r' = [] then 0
                                      else - int (digitsVal (takeWhile isDigit r')))
                 else int (digitsVal (takeWhile isDigit r)))
          else 0)"

definition unsignedLiteral :: "jsstring \<Rightarrow> jsnum" where
  "unsignedLiteral s =
     (if startsWith s [73, 110, 102, 105, 110, 105, 116, 121] \<comment> \<open>Infinity\<close> then PosInf
      else let ip = takeWhile isDigit s; r1 = dropWhile isDigit s;
               dot = (r1 \<noteq> [] \<and> hd r1 = 46);
               fp = (if dot then takeWhile isDigit (tl r1) else []);
               r2 = (if dot then dropWhile isDigit (tl r1) else r1)
           in if ip = [] \<and> fp = [] then NaN
              else let k = exponentPart r2 - int (length fp); n = digitsVal (ip @ fp)
                   in if 0 \<le> k then toDouble (n * 10 ^ nat k) 1
                      else toDouble n (10 ^ nat (- k)))"

definition parseFloat :: "jsstring \<Rightarrow> jsnum" where
  "parseFloat str =
     (case trimStart str of
        [] \<Rightarrow> NaN
      | c # r \<Rightarrow>
          if c = 43 then unsignedLiteral r
          else if c = 45 then negate (unsignedLiteral r)
          else unsignedLiteral (c # r))"


subsection \<open>The parts of the runtime that are tables of the host\<close>

text \<open>
  Three built-ins are tables of the JavaScript engine rather than code of the parser: the
  Unicode case conversions \<open>String.prototype.toUpperCase\<close> and \<open>toLowerCase\<close>, and the
  shortest-digits printing of a double, \<open>Number.prototype.toString\<close>. They are
  parameters of the model: every function below takes them in a record, and every
  theorem holds whatever they are.
\<close>

record runtime =
  toUpperCase :: "jsstring \<Rightarrow> jsstring"
  toLowerCase :: "jsstring \<Rightarrow> jsstring"
  numberToString :: "jsnum \<Rightarrow> jsstring"

subsection \<open>Cells and rows of the grid\<close>

text \<open>
  \<open>sheet_to_json\<close> with \<open>header: 1\<close> gives an array of rows, each an array of cell
  values typed \<open>any\<close>: a number, a string, a boolean, \<open>null\<close>, \<open>undefined\<close>, or
  nothing at all (a hole of a sparse array, which reads as \<open>undefined\<close> and which
  \<open>flat\<close> drops).
\<close>

datatype cell = Hole | Undefined | Null | Boolean bool | Number jsnum | Text jsstring

text \<open>\<open>row[i]\<close>: \<open>undefined\<close> at a hole and outside the array.\<close>

definition cellAt :: "cell list \<Rightarrow> int \<Rightarrow> cell" where
  "cellAt row i =
     (if 0 \<le> i \<and> i < int (length row)
      then (case row ! nat i of Hole \<Rightarrow> Undefined | c \<Rightarrow> c)
      else Undefined)"

text \<open>\<open>String(cell)\<close>.\<close>

fun toString :: "runtime \<Rightarrow> cell \<Rightarrow> jsstring" where
  "toString rt Hole = [117, 110, 100, 101, 102, 105, 110, 101, 100] \<comment> \<open>undefined\<close>"
| "toString rt Undefined = [117, 110, 100, 101, 102, 105, 110, 101, 100] \<comment> \<open>undefined\<close>"
| "toString rt Null = [110, 117, 108, 108] \<comment> \<open>null\<close>"
| "toString rt (Boolean b) = (if b then [116, 114, 117, 101] \<comment> \<open>true\<close> else [102, 97, 108, 115, 101] \<comment> \<open>false\<close>)"
| "toString rt (Number x) = numberToString rt x"
| "toString rt (Text s) = s"

section \<open>The roster parser\<close>

subsection \<open>isNamePart\<close>

text \<open>
  The list \<open>keywords\<close> of \<open>isNamePart\<close> (here \<open>keywordList\<close>), in the order of the source (non-ASCII code
  units written \<open><U+XXXX>\<close> here):
  stt, h<U+1ECD>, t<U+00EA>n, th<U+1EE9>, ng<U+00E0>y, th<U+00E1>ng, n<U+0103>m, l<U+1EDB>p, tr<U+01B0><U+1EDD>ng, d<U+00E2>n, t<U+1ED9>c, n<U+1EEF>, nam, <U+0111>i<U+1EC3>m, trung, b<U+00EC>nh, x<U+1EBF>p, lo<U+1EA1>i, ghi, ch<U+00FA>, k<U+1EBF>t, qu<U+1EA3>, h<U+1ECD>c, k<U+1EF3>, m<U+00F4>n, gdcd, c<U+00F4>ng, ngh<U+1EC7>, tin, th<U+1EC3>, gi<U+00E1>o, vi<U+00EA>n, ng<U+01B0><U+1EDD>i, l<U+1EAD>p, bi<U+1EC3>u, th<U+1ED1>ng, k<U+00EA>, tbm, <U+0111>tb, hk1, hk2, cn, t<U+1ED1>t, kh<U+00E1>, ubnd, thcs, thpt, ti<U+1EC3>u, ph<U+00F2>ng, s<U+1EDF>, <U+0111><U+00E0>o, t<U+1EA1>o, c<U+1ED9>ng, h<U+00F2>a, x<U+00E3>, huy<U+1EC7>n, t<U+1EC9>nh, th<U+00E0>nh, ph<U+1ED1>, <U+0111><U+1ED9>c, l<U+1EAD>p, t<U+1EF1>, do, <U+0111><U+0111>g, tx, <U+0111>gtx, <U+0111><U+0111>gc, nh<U+1EAD>n, x<U+00E9>t, kh<U+1ED1>i, s<U+1ED1>, l<U+01B0><U+1EE3>ng, t<U+1EC9>, l<U+1EC7>, t<U+1EF7>, ph<U+1EA7>n, tr<U+0103>m, t<U+1ED5>ng, sinh, <U+0111><U+1EA1>t, ch<U+01B0>a.
\<close>

definition keywordList :: "jsstring list" where
  "keywordList =
     [[115, 116, 116] \<comment> \<open>stt\<close>,
      [104, 7885] \<comment> \<open>h<U+1ECD>\<close>,
      [116, 234, 110] \<comment> \<open>t<U+00EA>n\<close>,
      [116, 104, 7913] \<comment> \<open>th<U+1EE9>\<close>,
      [110, 103, 224, 121] \<comment> \<open>ng<U+00E0>y\<close>,
      [116, 104, 225, 110, 103] \<comment> \<open>th<U+00E1>ng\<close>,
      [110, 259, 109] \<comment> \<open>n<U+0103>m\<close>,
      [108, 7899, 112] \<comment> \<open>l<U+1EDB>p\<close>,
      [116, 114, 432, 7901, 110, 103] \<comment> \<open>tr<U+01B0><U+1EDD>ng\<close>,
      [100, 226, 110] \<comment> \<open>d<U+00E2>n\<close>,
      [116, 7897, 99] \<comment> \<open>t<U+1ED9>c\<close>,
      [110, 7919] \<comment> \<open>n<U+1EEF>\<close>,
      [110, 97, 109] \<comment> \<open>nam\<close>,
      [273, 105, 7875, 109] \<comment> \<open><U+0111>i<U+1EC3>m\<close>,
      [116, 114, 117, 110, 103] \<comment> \<open>trung\<close>,
      [98, 236, 110, 104] \<comment> \<open>b<U+00EC>nh\<close>,
      [120, 7871, 112] \<comment> \<open>x<U+1EBF>p\<close>,
      [108, 111, 7841, 105] \<comment> \<open>lo<U+1EA1>i\<close>,
      [103, 104, 105] \<comment> \<open>ghi\<close>,
      [99, 104, 250] \<comment> \<open>ch<U+00FA>\<close>,
      [107, 7871, 116] \<comment> \<open>k<U+1EBF>t\<close>,
      [113, 117, 7843] \<comment> \<open>qu<U+1EA3>\<close>,
      [104, 7885, 99] \<comment> \<open>h<U+1ECD>c\<close>,
      [107, 7923] \<comment> \<open>k<U+1EF3>\<close>,
      [109, 244, 110] \<comment> \<open>m<U+00F4>n\<close>,
      [103, 100, 99, 100] \<comment> \<open>gdcd\<close>,
      [99, 244, 110, 103] \<comment> \<open>c<U+00F4>ng\<close>,
      [110, 103, 104, 7879] \<comment> \<open>ngh<U+1EC7>\<close>,
      [116, 105, 110] \<comment> \<open>tin\<close>,
      [116, 104, 7875] \<comment> \<open>th<U+1EC3>\<close>,
      [103, 105, 225, 111] \<comment> \<open>gi<U+00E1>o\<close>,
      [118, 105, 234, 110] \<comment> \<open>vi<U+00EA>n\<close>,
      [110, 103, 432, 7901, 105] \<comment> \<open>ng<U+01B0><U+1EDD>i\<close>,
      [108, 7853, 112] \<comment> \<open>l<U+1EAD>p\<close>,
      [98, 105, 7875, 117] \<comment> \<open>bi<U+1EC3>u\<close>,
      [116, 104, 7889, 110, 103] \<comment> \<open>th<U+1ED1>ng\<close>,
      [107, 234] \<comment> \<open>k<U+00EA>\<close>,
      [116, 98, 109] \<comment> \<open>tbm\<close>,
      [273, 116, 98] \<comment> \<open><U+0111>tb\<close>,
      [104, 107, 49] \<comment> \<open>hk1\<close>,
      [104, 107, 50] \<comment> \<open>hk2\<close>,
      [99, 110] \<comment> \<open>cn\<close>,
      [116, 7889, 116] \<comment> \<open>t<U+1ED1>t\<close>,
      [107, 104, 225] \<comment> \<open>kh<U+00E1>\<close>,
      [117, 98, 110, 100] \<comment> \<open>ubnd\<close>,
      [116, 104, 99, 115] \<comment> \<open>thcs\<close>,
      [116, 104, 112, 116] \<comment> \<open>thpt\<close>,
      [116, 105, 7875, 117] \<comment> \<open>ti<U+1EC3>u\<close>,
      [112, 104, 242, 110, 103] \<comment> \<open>ph<U+00F2>ng\<close>,
      [115, 7903] \<comment> \<open>s<U+1EDF>\<close>,
      [273, 224, 111] \<comment> \<open><U+0111><U+00E0>o\<close>,
      [116, 7841, 111] \<comment> \<open>t<U+1EA1>o\<close>,
      [99, 7897, 110, 103] \<comment> \<open>c<U+1ED9>ng\<close>,
      [104, 242, 97] \<comment> \<open>h<U+00F2>a\<close>,
      [120, 227] \<comment> \<open>x<U+00E3>\<close>,
      [104, 117, 121, 7879, 110] \<comment> \<open>huy<U+1EC7>n\<close>,
      [116, 7881, 110, 104] \<comment> \<open>t<U+1EC9>nh\<close>,
      [116, 104, 224, 110, 104] \<comment> \<open>th<U+00E0>nh\<close>,
      [112, 104, 7889] \<comment> \<open>ph<U+1ED1>\<close>,
      [273, 7897, 99] \<comment> \<open><U+0111><U+1ED9>c\<close>,
      [108, 7853, 112] \<comment> \<open>l<U+1EAD>p\<close>,
      [116, 7921] \<comment> \<open>t<U+1EF1>\<close>,
      [100, 111] \<comment> \<open>do\<close>,
      [273, 273, 103] \<comment> \<open><U+0111><U+0111>g\<close>,
      [116, 120] \<comment> \<open>tx\<close>,
      [273, 103, 116, 120] \<comment> \<open><U+0111>gtx\<close>,
      [273, 273, 103, 99] \<comment> \<open><U+0111><U+0111>gc\<close>,
      [110, 104, 7853, 110] \<comment> \<open>nh<U+1EAD>n\<close>,
      [120, 233, 116] \<comment> \<open>x<U+00E9>t\<close>,
      [107, 104, 7889, 105] \<comment> \<open>kh<U+1ED1>i\<close>,
      [115, 7889] \<comment> \<open>s<U+1ED1>\<close>,
      [108, 432, 7907, 110, 103] \<comment> \<open>l<U+01B0><U+1EE3>ng\<close>,
      [116, 7881] \<comment> \<open>t<U+1EC9>\<close>,
      [108, 7879] \<comment> \<open>l<U+1EC7>\<close>,
      [116, 7927] \<comment> \<open>t<U+1EF7>\<close>,
      [112, 104, 7847, 110] \<comment> \<open>ph<U+1EA7>n\<close>,
      [116, 114, 259, 109] \<comment> \<open>tr<U+0103>m\<close>,
      [116, 7893, 110, 103] \<comment> \<open>t<U+1ED5>ng\<close>,
      [115, 105, 110, 104] \<comment> \<open>sinh\<close>,
      [273, 7841, 116] \<comment> \<open><U+0111><U+1EA1>t\<close>,
      [99, 104, 432, 97] \<comment> \<open>ch<U+01B0>a\<close>]"

text \<open>
  \<open>/^(T|K|TB|Y|G|<U+0110>|C<U+0110>|TX\d|HK\d)$/.test(s)\<close>: one of seven fixed strings, or
  \<open>TX\<close> or \<open>HK\<close> followed by one digit.
\<close>

definition isAbbreviation :: "jsstring \<Rightarrow> bool" where
  "isAbbreviation s \<longleftrightarrow>
     s \<in> set [[84] \<comment> \<open>T\<close>, [75] \<comment> \<open>K\<close>, [84, 66] \<comment> \<open>TB\<close>, [89] \<comment> \<open>Y\<close>, [71] \<comment> \<open>G\<close>, [272] \<comment> \<open><U+0110>\<close>, [67, 272] \<comment> \<open>C<U+0110>\<close>] \<or>
     (length s = 3 \<and> take 2 s = [84, 88] \<comment> \<open>TX\<close> \<and> isDigit (s ! 2)) \<or>
     (length s = 3 \<and> take 2 s = [72, 75] \<comment> \<open>HK\<close> \<and> isDigit (s ! 2))"

definition isNamePart :: "runtime \<Rightarrow> cell \<Rightarrow> bool" where
  "isNamePart rt val =
     (case val of
        Text v \<Rightarrow>
          (let str = trim v in
           if length str = 0 then False
           else if hasDigit str then False
           else if length str < 2 \<and> toUpperCase rt str \<noteq> [221] \<comment> \<open><U+00DD>\<close> then False
           else
             (let lower = toLowerCase rt str in
              if list_ex (\<lambda>k. lower = k) [[115, 116, 116] \<comment> \<open>stt\<close>, [273, 273, 103, 116, 120] \<comment> \<open><U+0111><U+0111>gtx\<close>, [273, 273, 103, 99, 107] \<comment> \<open><U+0111><U+0111>gck\<close>, [273, 116, 98, 109, 104, 107] \<comment> \<open><U+0111>tbmhk\<close>] then False
              else if includesStr lower [115, 7889, 32, 108, 432, 7907, 110, 103] \<comment> \<open>s<U+1ED1> l<U+01B0><U+1EE3>ng\<close> \<or> includesStr lower [116, 7881, 32, 108, 7879] \<comment> \<open>t<U+1EC9> l<U+1EC7>\<close> \<or>
                      includesStr lower [116, 7927, 32, 108, 7879] \<comment> \<open>t<U+1EF7> l<U+1EC7>\<close> \<or> includesStr lower [116, 104, 7889, 110, 103, 32, 107, 234] \<comment> \<open>th<U+1ED1>ng k<U+00EA>\<close> then False
              else if includesStr lower [115, 7889, 32, 104, 7885, 99, 32, 115, 105, 110, 104] \<comment> \<open>s<U+1ED1> h<U+1ECD>c sinh\<close> \<or> lower = [273, 7841, 116] \<comment> \<open><U+0111><U+1EA1>t\<close> \<or>
                      lower = [99, 104, 432, 97, 32, 273, 7841, 116] \<comment> \<open>ch<U+01B0>a <U+0111><U+1EA1>t\<close> then False
              else if list_ex (\<lambda>k. lower = k) keywordList then False
              else if list_ex (\<lambda>k. includesStr lower k)
                        [[116, 114, 432, 7901, 110, 103] \<comment> \<open>tr<U+01B0><U+1EDD>ng\<close>, [112, 104, 242, 110, 103] \<comment> \<open>ph<U+00F2>ng\<close>, [7911, 121] \<comment> \<open><U+1EE7>y\<close>, [98, 97, 110] \<comment> \<open>ban\<close>, [99, 7897, 110, 103, 32, 104, 242, 97] \<comment> \<open>c<U+1ED9>ng h<U+00F2>a\<close>] then False
              else if isAbbreviation (toUpperCase rt str) then False
              else True))
      | _ \<Rightarrow> False)"

subsection \<open>The records produced\<close>

text \<open>
  Modelled from the spec: the types \<open>StudentData\<close> and \<open>TeacherRole\<close>, which the
  parser imports from \<open>types.ts\<close>, a file that is not among the sources. The role is
  one of \<open>SUBJECT\<close> and \<open>HOMEROOM\<close>; a record has the fields of section 3 of the
  specification, which are the ones the parser writes, an optional field being \<open>None\<close>
  when it is \<open>undefined\<close>. The field \<open>id\<close> is named \<open>ident\<close> here.
\<close>

datatype TeacherRole = SUBJECT | HOMEROOM

record StudentData =
  ident :: jsstring
  name :: jsstring
  comment :: jsstring
  isProcessing :: bool
  subjectScore :: "jsnum option"
  subjectRating :: "jsstring option"
  academicResult :: "jsstring option"
  conductRating :: "jsstring option"
  absences :: "jsnum option"

subsection \<open>One row of the grid\<close>

text \<open>
  The test on the first cell (the row number, STT):
  \<open>typeof firstCell === 'number' || (typeof firstCell === 'string' && /^\d+$/.test(firstCell.trim()))\<close>,
  which is also the test that lets the name loop skip leading numbers.
\<close>

definition isNumeric :: "cell \<Rightarrow> bool" where
  "isNumeric c = (case c of Number x \<Rightarrow> True | Text s \<Rightarrow> allDigits (trim s) | _ \<Rightarrow> False)"

text \<open>
  \<open>Number(firstCell)\<close> where \<open>isNumeric\<close> holds: the number itself, or the value of the
  digits (\<open>Number\<close> strips the same white space as \<open>trim\<close>), rounded to a double.
\<close>

definition toNumber :: "cell \<Rightarrow> jsnum" where
  "toNumber c = (case c of Number x \<Rightarrow> x | Text s \<Rightarrow> toDouble (digitsVal (trim s)) 1 | _ \<Rightarrow> NaN)"

definition hasIndex :: "cell list \<Rightarrow> bool" where
  "hasIndex row =
     (let firstCell = cellAt row 0 in
      if isNumeric firstCell
      then (let val = toNumber firstCell in jsLess (Fin 0) val \<and> jsLess val (Fin 1000))
      else False)"

text \<open>\<open>cell === undefined || cell === null || String(cell).trim() === ''\<close>.\<close>

definition isBlank :: "runtime \<Rightarrow> cell \<Rightarrow> bool" where
  "isBlank rt c \<longleftrightarrow> c = Hole \<or> c = Undefined \<or> c = Null \<or> trim (toString rt c) = []"

text \<open>
  The loop that finds the name: the state is \<open>nameParts\<close> and \<open>nameEndIndex\<close>, a
  \<open>break\<close> returns the state, \<open>continue\<close> goes on with \<open>i + 1\<close>.
\<close>

function nameLoop ::
  "runtime \<Rightarrow> cell list \<Rightarrow> int \<Rightarrow> jsstring list \<Rightarrow> int \<Rightarrow> jsstring list \<times> int" where
  "nameLoop rt row i nameParts nameEndIndex =
     (if i < int (length row) then
        (if length nameParts = 0 \<and> isNumeric (cellAt row i)
         then nameLoop rt row (i + 1) nameParts nameEndIndex
         else if length nameParts = 0 then
           (if isNamePart rt (cellAt row i)
            then nameLoop rt row (i + 1) (nameParts @ [trim (toString rt (cellAt row i))]) i
            else nameLoop rt row (i + 1) nameParts nameEndIndex)
         else if isNamePart rt (cellAt row i)
         then nameLoop rt row (i + 1) (nameParts @ [trim (toString rt (cellAt row i))]) i
         else if isBlank rt (cellAt row i) then
           (if isNamePart rt (cellAt row (i + 1))
            then nameLoop rt row (i + 1) nameParts nameEndIndex
            else (nameParts, nameEndIndex))
         else (nameParts, nameEndIndex))
      else (nameParts, nameEndIndex))"
  by pat_completeness auto
termination
  by (relation "measure (\<lambda>(rt, row, i, nameParts, nameEndIndex). nat (int (length row) - i))") auto

declare nameLoop.simps [simp del]

text \<open>The filters on the assembled name; \<open>True\<close> when the row is dropped.\<close>

definition nameRejected :: "runtime \<Rightarrow> jsstring \<Rightarrow> bool" where
  "nameRejected rt fullName =
     (if (fullName = [] \<or> length fullName < 2) \<and> fullName \<noteq> [221] \<comment> \<open><U+00DD>\<close> then True
      else
        (let upperName = toUpperCase rt fullName in
         if includesStr upperName [84, 82, 431, 7900, 78, 71] \<comment> \<open>TR<U+01AF><U+1EDC>NG\<close> \<or> includesStr upperName [84, 72, 67, 83] \<comment> \<open>THCS\<close> \<or>
            includesStr upperName [84, 72, 80, 84] \<comment> \<open>THPT\<close> \<or> includesStr upperName [85, 66, 78, 68] \<comment> \<open>UBND\<close> \<or>
            includesStr upperName [67, 7896, 78, 71, 32, 72, 210, 65] \<comment> \<open>C<U+1ED8>NG H<U+00D2>A\<close> \<or> includesStr upperName [272, 7896, 67, 32, 76, 7852, 80] \<comment> \<open><U+0110><U+1ED8>C L<U+1EAC>P\<close> then True
         else if includesStr upperName [83, 7888, 32, 76, 431, 7906, 78, 71] \<comment> \<open>S<U+1ED0> L<U+01AF><U+1EE2>NG\<close> \<or> includesStr upperName [84, 7880, 32, 76, 7878] \<comment> \<open>T<U+1EC8> L<U+1EC6>\<close> \<or>
                 includesStr upperName [84, 7926, 32, 76, 7878] \<comment> \<open>T<U+1EF6> L<U+1EC6>\<close> \<or> includesStr upperName [84, 7892, 78, 71, 32, 67, 7896, 78, 71] \<comment> \<open>T<U+1ED4>NG C<U+1ED8>NG\<close> \<or>
                 includesStr upperName [84, 72, 7888, 78, 71, 32, 75, 202] \<comment> \<open>TH<U+1ED0>NG K<U+00CA>\<close> \<or> startsWith upperName [83, 7888, 32, 72, 7884, 67, 32, 83, 73, 78, 72] \<comment> \<open>S<U+1ED0> H<U+1ECC>C SINH\<close> \<or>
                 upperName = [272, 7840, 84] \<comment> \<open><U+0110><U+1EA0>T\<close> \<or> upperName = [67, 72, 431, 65, 32, 272, 7840, 84] \<comment> \<open>CH<U+01AF>A <U+0110><U+1EA0>T\<close> then True
         else if includesStr fullName [37] \<comment> \<open>%\<close> \<or>
                 (includesStr fullName [45] \<comment> \<open>-\<close> \<and> 5 < length fullName \<and>
                  \<not> includesStr fullName [32]) then True
         else False))"

text \<open>
  The rating codes of the subject teacher,
  \<open>/^(T|K|<U+0110>|C<U+0110>|TB|G|Y|<U+0110><U+1EA0>T|CH<U+01AF>A <U+0110><U+1EA0>T)$/\<close>.
\<close>

definition isSubjectRating :: "jsstring \<Rightarrow> bool" where
  "isSubjectRating s \<longleftrightarrow>
     s \<in> set [[84] \<comment> \<open>T\<close>, [75] \<comment> \<open>K\<close>, [272] \<comment> \<open><U+0110>\<close>, [67, 272] \<comment> \<open>C<U+0110>\<close>, [84, 66] \<comment> \<open>TB\<close>, [71] \<comment> \<open>G\<close>, [89] \<comment> \<open>Y\<close>, [272, 7840, 84] \<comment> \<open><U+0110><U+1EA0>T\<close>, [67, 72, 431, 65, 32, 272, 7840, 84] \<comment> \<open>CH<U+01AF>A <U+0110><U+1EA0>T\<close>]"

text \<open>
  The backward loop of the subject teacher, from \<open>j\<close> down to \<open>nameEndIndex + 1\<close>; the
  result is the pair \<open>(subjectScore, subjectRating)\<close>.
\<close>

function subjectLoop ::
  "runtime \<Rightarrow> cell list \<Rightarrow> int \<Rightarrow> int \<Rightarrow> jsnum option \<times> jsstring option" where
  "subjectLoop rt row j nameEndIndex =
     (if nameEndIndex < j then
        (if isBlank rt (cellAt row j) then subjectLoop rt row (j - 1) nameEndIndex
         else
           (let cellStr = replaceComma (trim (toString rt (cellAt row j)));
                cellNum = parseFloat cellStr
            in if \<not> isNaN cellNum then
                 (if jsLessEq (Fin 0) cellNum \<and> jsLessEq cellNum (Fin 10)
                  then (Some cellNum, None)
                  else subjectLoop rt row (j - 1) nameEndIndex)
               else
                 (let upper = toUpperCase rt cellStr in
                  if isSubjectRating upper then (None, Some upper)
                  else subjectLoop rt row (j - 1) nameEndIndex)))
      else (None, None))"
  by pat_completeness auto
termination
  by (relation "measure (\<lambda>(rt, row, j, nameEndIndex). nat (j - nameEndIndex))") auto

declare subjectLoop.simps [simp del]

text \<open>
  The rating codes of the homeroom teacher: the short codes and the words
  T<U+1ED0>T, KH<U+00C1>, <U+0110><U+1EA0>T, CH<U+01AF>A <U+0110><U+1EA0>T, GI<U+1ECE>I, Y<U+1EBE>U,
  TRUNG B<U+00CC>NH, K<U+00C9>M.
\<close>

definition isHomeroomRating :: "jsstring \<Rightarrow> bool" where
  "isHomeroomRating s \<longleftrightarrow>
     s \<in> set [[84] \<comment> \<open>T\<close>, [75] \<comment> \<open>K\<close>, [272] \<comment> \<open><U+0110>\<close>, [67, 272] \<comment> \<open>C<U+0110>\<close>, [71] \<comment> \<open>G\<close>, [84, 66] \<comment> \<open>TB\<close>, [89] \<comment> \<open>Y\<close>, [84, 7888, 84] \<comment> \<open>T<U+1ED0>T\<close>, [75, 72, 193] \<comment> \<open>KH<U+00C1>\<close>, [272, 7840, 84] \<comment> \<open><U+0110><U+1EA0>T\<close>,
              [67, 72, 431, 65, 32, 272, 7840, 84] \<comment> \<open>CH<U+01AF>A <U+0110><U+1EA0>T\<close>, [71, 73, 7886, 73] \<comment> \<open>GI<U+1ECE>I\<close>, [89, 7870, 85] \<comment> \<open>Y<U+1EBE>U\<close>, [84, 82, 85, 78, 71, 32, 66, 204, 78, 72] \<comment> \<open>TRUNG B<U+00CC>NH\<close>, [75, 201, 77] \<comment> \<open>K<U+00C9>M\<close>]"

text \<open>
  \<open>parseInt(str, 10)\<close> on a string of digits, the only strings the parser gives it:
  their value, rounded to a double.
\<close>

definition parseInt :: "jsstring \<Rightarrow> jsnum" where
  "parseInt str = toDouble (digitsVal str) 1"

text \<open>
  The forward loop of the homeroom teacher, from \<open>j\<close> to the end of the row; the state
  is \<open>ratingsFound\<close> and \<open>absences\<close> (here \<open>absences0\<close>).
\<close>

function homeroomLoop ::
  "runtime \<Rightarrow> cell list \<Rightarrow> int \<Rightarrow> jsstring list \<Rightarrow> jsnum option \<Rightarrow> jsstring list \<times> jsnum option" where
  "homeroomLoop rt row j ratingsFound absences0 =
     (if j < int (length row) then
        (if isBlank rt (cellAt row j) then homeroomLoop rt row (j + 1) ratingsFound absences0
         else
           (let str = trim (toString rt (cellAt row j)); upper = toUpperCase rt str
            in if isHomeroomRating upper
               then homeroomLoop rt row (j + 1) (ratingsFound @ [upper]) absences0
               else if allDigits str then
                 (let n = parseInt str
                  in if jsLessEq (Fin 0) n \<and> jsLess n (Fin 60)
                     then homeroomLoop rt row (j + 1) ratingsFound (Some n)
                     else homeroomLoop rt row (j + 1) ratingsFound absences0)
               else homeroomLoop rt row (j + 1) ratingsFound absences0))
      else (ratingsFound, absences0))"
  by pat_completeness auto
termination
  by (relation "measure (\<lambda>(rt, row, j, ratingsFound, absences0). nat (int (length row) - j))") auto

declare homeroomLoop.simps [simp del]


text \<open>
  The assignment after the homeroom loop: the first rating found is the academic result,
  the second the conduct rating.
\<close>

definition assignRatings :: "jsstring list \<Rightarrow> jsstring option \<times> jsstring option" where
  "assignRatings ratingsFound =
     (if 2 \<le> length ratingsFound then (Some (ratingsFound ! 0), Some (ratingsFound ! 1))
      else if length ratingsFound = 1 then (Some (ratingsFound ! 0), None)
      else (None, None))"

text \<open>
  The body of the \<open>forEach\<close> callback of \<open>parseExcelData\<close>: \<open>None\<close> when the callback
  returns without a \<open>push\<close>, the record pushed otherwise. \<open>now\<close> is what \<open>Date.now()\<close>
  returns in this call. The local variables \<open>subjectScore\<close>, \<open>subjectRating\<close>,
  \<open>academicResult\<close>, \<open>conductRating\<close> and \<open>absences\<close> are \<open>score\<close>, \<open>rating\<close>,
  \<open>academic\<close>, \<open>conduct\<close> and \<open>absent\<close> here, the fields of the record having their
  names.
\<close>

definition processRow ::
  "runtime \<Rightarrow> TeacherRole \<Rightarrow> nat \<Rightarrow> nat \<Rightarrow> cell list \<Rightarrow> StudentData option" where
  "processRow rt role now rowIndex row =
     (if length row = 0 then None
      else
        (case nameLoop rt row 0 [] (- 1) of
           (nameParts, nameEndIndex) \<Rightarrow>
             (let fullName = trim (joinSpace nameParts) in
              if nameRejected rt fullName then None
              else
                (case (if role = SUBJECT
                       then subjectLoop rt row (int (length row) - 1) nameEndIndex
                       else (None, None)) of
                   (score, rating) \<Rightarrow>
                     (case (if role = SUBJECT then ([], None)
                            else homeroomLoop rt row (nameEndIndex + 1) [] None) of
                        (ratingsFound, absent) \<Rightarrow>
                          (case assignRatings ratingsFound of
                             (academic, conduct) \<Rightarrow>
                               (let hasData =
                                      (if role = SUBJECT then score \<noteq> None \<or> rating \<noteq> None
                                       else academic \<noteq> None \<or> conduct \<noteq> None \<or> absent \<noteq> None)
                                in if \<not> hasIndex row \<and> \<not> hasData then None
                                   else Some \<lparr>ident = [115, 116, 117, 100, 101, 110, 116, 45, 120, 108, 115, 45] \<comment> \<open>student-xls-\<close> @ decimal now @ [45] \<comment> \<open>-\<close> @ decimal rowIndex,
                                              name = fullName,
                                              comment = [],
                                              isProcessing = False,
                                              subjectScore = score,
                                              subjectRating = rating,
                                              academicResult = academic,
                                              conductRating = conduct,
                                              absences = absent\<rparr>)))))))"

subsection \<open>detectSubject\<close>

text \<open>
  \<open>headers.flat().join(' ')\<close>: \<open>flat\<close> concatenates the rows and drops their holes,
  \<open>join\<close> prints \<open>undefined\<close> and \<open>null\<close> as the empty string and anything else with
  \<open>String\<close>.
\<close>

definition joinItem :: "runtime \<Rightarrow> cell \<Rightarrow> jsstring" where
  "joinItem rt c = (if c = Undefined \<or> c = Null then [] else toString rt c)"

definition flatJoin :: "runtime \<Rightarrow> cell list list \<Rightarrow> jsstring" where
  "flatJoin rt headers = joinSpace (map (joinItem rt) (filter (\<lambda>c. c \<noteq> Hole) (concat headers)))"

definition detectSubject :: "runtime \<Rightarrow> cell list list \<Rightarrow> jsstring option" where
  "detectSubject rt headers =
     (let flatHeaders = toLowerCase rt (flatJoin rt headers) in
      if includesStr flatHeaders [116, 111, 225, 110] \<comment> \<open>to<U+00E1>n\<close> then Some [84, 111, 225, 110] \<comment> \<open>To<U+00E1>n\<close>
      else if includesStr flatHeaders [118, 259, 110] \<comment> \<open>v<U+0103>n\<close> \<or> includesStr flatHeaders [118, 105, 7879, 116] \<comment> \<open>vi<U+1EC7>t\<close> \<or>
              includesStr flatHeaders [110, 103, 7919] \<comment> \<open>ng<U+1EEF>\<close> then Some [86, 259, 110] \<comment> \<open>V<U+0103>n\<close>
      else if includesStr flatHeaders [108, 7883, 99, 104, 32, 115, 7917] \<comment> \<open>l<U+1ECB>ch s<U+1EED>\<close> \<or> includesStr flatHeaders [273, 7883, 97, 32, 108, 253] \<comment> \<open><U+0111><U+1ECB>a l<U+00FD>\<close> \<or>
              includesStr flatHeaders [115, 7917] \<comment> \<open>s<U+1EED>\<close> \<or> includesStr flatHeaders [273, 7883, 97] \<comment> \<open><U+0111><U+1ECB>a\<close> then Some [76, 83, 32, 38, 32, 272, 76] \<comment> \<open>LS & <U+0110>L\<close>
      else if includesStr flatHeaders [107, 104, 111, 97, 32, 104, 7885, 99, 32, 116, 7921, 32, 110, 104, 105, 234, 110] \<comment> \<open>khoa h<U+1ECD>c t<U+1EF1> nhi<U+00EA>n\<close> \<or> includesStr flatHeaders [107, 104, 116, 110] \<comment> \<open>khtn\<close> \<or>
              includesStr flatHeaders [108, 253] \<comment> \<open>l<U+00FD>\<close> \<or> includesStr flatHeaders [104, 243, 97] \<comment> \<open>h<U+00F3>a\<close> \<or>
              includesStr flatHeaders [115, 105, 110, 104] \<comment> \<open>sinh\<close> \<or> includesStr flatHeaders [118, 7853, 116, 32, 108, 253] \<comment> \<open>v<U+1EAD>t l<U+00FD>\<close> \<or>
              includesStr flatHeaders [118, 7853, 116, 32, 108, 237] \<comment> \<open>v<U+1EAD>t l<U+00ED>\<close> \<or> includesStr flatHeaders [115, 105, 110, 104, 32, 104, 7885, 99] \<comment> \<open>sinh h<U+1ECD>c\<close> \<or>
              includesStr flatHeaders [104, 243, 97, 32, 104, 7885, 99] \<comment> \<open>h<U+00F3>a h<U+1ECD>c\<close> then Some [75, 72, 84, 78] \<comment> \<open>KHTN\<close>
      else if includesStr flatHeaders [116, 105, 110] \<comment> \<open>tin\<close> \<or> includesStr flatHeaders [116, 105, 110, 32, 104, 7885, 99] \<comment> \<open>tin h<U+1ECD>c\<close>
           then Some [84, 105, 110, 32, 104, 7885, 99] \<comment> \<open>Tin h<U+1ECD>c\<close>
      else if includesStr flatHeaders [97, 110, 104] \<comment> \<open>anh\<close> \<or> includesStr flatHeaders [110, 103, 111, 7841, 105, 32, 110, 103, 7919] \<comment> \<open>ngo<U+1EA1>i ng<U+1EEF>\<close> \<or>
              includesStr flatHeaders [116, 105, 7871, 110, 103, 32, 97, 110, 104] \<comment> \<open>ti<U+1EBF>ng anh\<close> then Some [78, 103, 46, 110, 103, 7919] \<comment> \<open>Ng.ng<U+1EEF>\<close>
      else if includesStr flatHeaders [103, 100, 99, 100] \<comment> \<open>gdcd\<close> \<or> includesStr flatHeaders [99, 244, 110, 103, 32, 100, 226, 110] \<comment> \<open>c<U+00F4>ng d<U+00E2>n\<close>
           then Some [71, 68, 67, 68] \<comment> \<open>GDCD\<close>
      else if includesStr flatHeaders [99, 244, 110, 103, 32, 110, 103, 104, 7879] \<comment> \<open>c<U+00F4>ng ngh<U+1EC7>\<close> then Some [67, 46, 110, 103, 104, 7879] \<comment> \<open>C.ngh<U+1EC7>\<close>
      else if includesStr flatHeaders [116, 104, 7875, 32, 100, 7909, 99] \<comment> \<open>th<U+1EC3> d<U+1EE5>c\<close> \<or> includesStr flatHeaders [103, 100, 116, 99] \<comment> \<open>gdtc\<close> \<or>
              includesStr flatHeaders [116, 104, 7875, 32, 99, 104, 7845, 116] \<comment> \<open>th<U+1EC3> ch<U+1EA5>t\<close> then Some [71, 68, 84, 67] \<comment> \<open>GDTC\<close>
      else if includesStr flatHeaders [110, 104, 7841, 99] \<comment> \<open>nh<U+1EA1>c\<close> \<or> includesStr flatHeaders [109, 7929, 32, 116, 104, 117, 7853, 116] \<comment> \<open>m<U+1EF9> thu<U+1EAD>t\<close> \<or>
              includesStr flatHeaders [226, 109, 32, 110, 104, 7841, 99] \<comment> \<open><U+00E2>m nh<U+1EA1>c\<close> \<or> includesStr flatHeaders [110, 103, 104, 7879, 32, 116, 104, 117, 7853, 116] \<comment> \<open>ngh<U+1EC7> thu<U+1EAD>t\<close>
           then Some [78, 103, 104, 7879, 32, 116, 104, 117, 7853, 116] \<comment> \<open>Ngh<U+1EC7> thu<U+1EAD>t\<close>
      else if includesStr flatHeaders [273, 7883, 97, 32, 112, 104, 432, 417, 110, 103] \<comment> \<open><U+0111><U+1ECB>a ph<U+01B0><U+01A1>ng\<close> \<or> includesStr flatHeaders [110, 100, 103, 100, 99, 273, 112] \<comment> \<open>ndgdc<U+0111>p\<close>
           then Some [78, 68, 71, 68, 67, 272, 80] \<comment> \<open>NDGDC<U+0110>P\<close>
      else if includesStr flatHeaders [116, 114, 7843, 105, 32, 110, 103, 104, 105, 7879, 109] \<comment> \<open>tr<U+1EA3>i nghi<U+1EC7>m\<close> \<or> includesStr flatHeaders [104, 432, 7899, 110, 103, 32, 110, 103, 104, 105, 7879, 112] \<comment> \<open>h<U+01B0><U+1EDB>ng nghi<U+1EC7>p\<close> \<or>
              includesStr flatHeaders [104, 273, 116, 110] \<comment> \<open>h<U+0111>tn\<close> then Some [72, 272, 84, 78, 38, 72, 78] \<comment> \<open>H<U+0110>TN&HN\<close>
      else None)"

subsection \<open>parseExcelData\<close>

text \<open>
  The spreadsheet library is not code of the parser: \<open>XLSX.read\<close> and
  \<open>XLSX.utils.sheet_to_json\<close> are parameters, each returning either the exception it
  throws or its value. The input is a string or an \<open>ArrayBuffer\<close> of bytes; a workbook
  has its \<open>SheetNames\<close> (possibly missing) and its \<open>Sheets\<close> by name. \<open>clock\<close> is what
  \<open>Date.now()\<close> returns while the row of a given index is processed.
\<close>

datatype thrown = Thrown

datatype fileData = StringData jsstring | ArrayBuffer "nat list"

record 'ws WorkBook =
  SheetNames :: "jsstring list option"
  Sheets :: "jsstring \<Rightarrow> 'ws option"

record 'ws xlsx =
  xlsxRead :: "fileData \<Rightarrow> thrown + 'ws WorkBook"
  sheet_to_json :: "'ws \<Rightarrow> thrown + cell list list"

record ParseResult =
  students :: "StudentData list"
  detectedSubject :: "jsstring option"

text \<open>\<open>rawData.forEach((row, rowIndex) => ...)\<close> with the list \<open>students\<close> as state.\<close>

fun forEachRow ::
  "runtime \<Rightarrow> TeacherRole \<Rightarrow> (nat \<Rightarrow> nat) \<Rightarrow> cell list list \<Rightarrow> nat \<Rightarrow> StudentData list
   \<Rightarrow> StudentData list" where
  "forEachRow rt role clock [] rowIndex acc = acc"
| "forEachRow rt role clock (row # rest) rowIndex acc =
     forEachRow rt role clock rest (rowIndex + 1)
       (case processRow rt role (clock rowIndex) rowIndex row of
          None \<Rightarrow> acc
        | Some student \<Rightarrow> acc @ [student])"

text \<open>The body of the \<open>try\<close> block.\<close>

definition parseExcelData_try ::
  "runtime \<Rightarrow> 'ws xlsx \<Rightarrow> (nat \<Rightarrow> nat) \<Rightarrow> fileData \<Rightarrow> TeacherRole \<Rightarrow> thrown + ParseResult" where
  "parseExcelData_try rt lib clock data role =
     (case xlsxRead lib data of
        Inl e \<Rightarrow> Inl e
      | Inr workbook \<Rightarrow>
          (case SheetNames workbook of
             None \<Rightarrow> Inr \<lparr>students = [], detectedSubject = None\<rparr>
           | Some [] \<Rightarrow> Inr \<lparr>students = [], detectedSubject = None\<rparr>
           | Some (sheetName # others) \<Rightarrow>
               (case Sheets workbook sheetName of
                  None \<Rightarrow> Inr \<lparr>students = [], detectedSubject = None\<rparr>
                | Some worksheet \<Rightarrow>
                    (case sheet_to_json lib worksheet of
                       Inl e \<Rightarrow> Inl e
                     | Inr rawData \<Rightarrow>
                         if length rawData = 0 then Inr \<lparr>students = [], detectedSubject = None\<rparr>
                         else Inr \<lparr>students = forEachRow rt role clock rawData 0 [],
                                   detectedSubject = detectSubject rt (take 5 rawData)\<rparr>))))"

text \<open>The \<open>catch\<close> logs the exception and returns an empty list.\<close>

definition parseExcelData ::
  "runtime \<Rightarrow> 'ws xlsx \<Rightarrow> (nat \<Rightarrow> nat) \<Rightarrow> fileData \<Rightarrow> TeacherRole \<Rightarrow> ParseResult" where
  "parseExcelData rt lib clock data role =
     (case parseExcelData_try rt lib clock data role of
        Inl e \<Rightarrow> \<lparr>students = [], detectedSubject = None\<rparr>
      | Inr result \<Rightarrow> result)"


subsection \<open>parseStringData\<close>



















section \<open>A runtime for the examples\<close>

text \<open>
  The examples below need the host's tables at the strings they contain. \<open>upperUnit\<close>
  and \<open>lowerUnit\<close> are the Unicode case conversions of one code unit on Basic Latin,
  the Latin-1 Supplement and the letters of the Vietnamese alphabet beyond them
  (U+0102, U+0103, U+0110, U+0111, U+0128, U+0129, U+0168, U+0169, U+01A0, U+01A1,
  U+01AF, U+01B0 and U+1EA0..U+1EF9); any other code unit is returned as it is, which is
  not what the host does for every one of them, so the examples contain none.
  \<open>integerToString\<close> prints NaN, the infinities, the zeros and the integers below
  \<open>10 ^ 21\<close> in magnitude as the host does; no statement below depends on what it
  prints for another number.
\<close>

definition upperUnit :: "nat \<Rightarrow> jsstring" where
  "upperUnit c =
     (if 97 \<le> c \<and> c \<le> 122 then [c - 32]
      else if c = 181 then [924]
      else if c = 223 then [83, 83]
      else if 224 \<le> c \<and> c \<le> 254 \<and> c \<noteq> 247 then [c - 32]
      else if c = 255 then [376]
      else if c = 259 \<or> c = 273 \<or> c = 297 \<or> c = 361 \<or> c = 417 \<or> c = 432 then [c - 1]
      else if 7840 \<le> c \<and> c \<le> 7929 \<and> odd c then [c - 1]
      else [c])"

definition lowerUnit :: "nat \<Rightarrow> jsstring" where
  "lowerUnit c =
     (if 65 \<le> c \<and> c \<le> 90 then [c + 32]
      else if 192 \<le> c \<and> c \<le> 222 \<and> c \<noteq> 215 then [c + 32]
      else if c = 258 \<or> c = 272 \<or> c = 296 \<or> c = 360 \<or> c = 416 \<or> c = 431 then [c + 1]
      else if 7840 \<le> c \<and> c \<le> 7929 \<and> even c then [c + 1]
      else [c])"

definition integerToString :: "jsnum \<Rightarrow> jsstring" where
  "integerToString x =
     (case x of
        NaN \<Rightarrow> [78, 97, 78] \<comment> \<open>NaN\<close>
      | PosInf \<Rightarrow> [73, 110, 102, 105, 110, 105, 116, 121] \<comment> \<open>Infinity\<close>
      | NegInf \<Rightarrow> [45, 73, 110, 102, 105, 110, 105, 116, 121] \<comment> \<open>-Infinity\<close>
      | NegZero \<Rightarrow> [48] \<comment> \<open>0\<close>
      | Fin q \<Rightarrow> (if 0 \<le> q then decimal (nat \<lfloor>q\<rfloor>) else 45 # decimal (nat \<lfloor>- q\<rfloor>)))"

definition exampleRuntime :: runtime where
  "exampleRuntime =
     \<lparr>toUpperCase = (\<lambda>s. concat (map upperUnit s)),
      toLowerCase = (\<lambda>s. concat (map lowerUnit s)),
      numberToString = integerToString\<rparr>"

section \<open>Notions used to state the properties\<close>

subsection \<open>The grid the parser works on\<close>

text \<open>
  \<open>rawData\<close> as \<open>parseExcelData\<close> obtains it: the rows of the first sheet named in
  the workbook, when the workbook can be read, names a sheet that exists, and the sheet
  converts; \<open>None\<close> when the parser returns before it has a grid.
\<close>

definition rawDataOf :: "'ws xlsx \<Rightarrow> fileData \<Rightarrow> cell list list option" where
  "rawDataOf lib data =
     (case xlsxRead lib data of
        Inl e \<Rightarrow> None
      | Inr workbook \<Rightarrow>
          (case SheetNames workbook of
             None \<Rightarrow> None
           | Some [] \<Rightarrow> None
           | Some (sheetName # others) \<Rightarrow>
               (case Sheets workbook sheetName of
                  None \<Rightarrow> None
                | Some worksheet \<Rightarrow>
                    (case sheet_to_json lib worksheet of
                       Inl e \<Rightarrow> None
                     | Inr rawData \<Rightarrow> Some rawData))))"

subsection \<open>Libraries for the examples\<close>

text \<open>
  A library whose workbook has one sheet with the given rows, one that cannot read its
  input, and one whose workbook has no sheet; and a clock that stands still at \<open>t\<close>.
\<close>

definition fixedClock :: "nat \<Rightarrow> nat \<Rightarrow> nat" where
  "fixedClock t i = t"

definition gridLibrary :: "cell list list \<Rightarrow> unit xlsx" where
  "gridLibrary rows =
     \<lparr>xlsxRead = (\<lambda>d. Inr \<lparr>SheetNames = Some [[83, 104, 101, 101, 116, 49] \<comment> \<open>Sheet1\<close>],
                             Sheets = (\<lambda>n. if n = [83, 104, 101, 101, 116, 49] \<comment> \<open>Sheet1\<close> then Some () else None)\<rparr>),
      sheet_to_json = (\<lambda>ws. Inr rows)\<rparr>"

definition unreadableLibrary :: "unit xlsx" where
  "unreadableLibrary = \<lparr>xlsxRead = (\<lambda>d. Inl Thrown), sheet_to_json = (\<lambda>ws. Inl Thrown)\<rparr>"

definition emptyWorkbookLibrary :: "unit xlsx" where
  "emptyWorkbookLibrary =
     \<lparr>xlsxRead = (\<lambda>d. Inr \<lparr>SheetNames = Some [], Sheets = (\<lambda>n. None)\<rparr>),
      sheet_to_json = (\<lambda>ws. Inl Thrown)\<rparr>"

subsection \<open>Subject detection\<close>

text \<open>
  Every keyword \<open>detectSubject\<close> looks for, the labels it can return, and the text it
  searches: the header rows joined and lower-cased.
\<close>

definition subjectKeywords :: "jsstring list" where
  "subjectKeywords =
     [[116, 111, 225, 110] \<comment> \<open>to<U+00E1>n\<close>, [118, 259, 110] \<comment> \<open>v<U+0103>n\<close>, [118, 105, 7879, 116] \<comment> \<open>vi<U+1EC7>t\<close>, [110, 103, 7919] \<comment> \<open>ng<U+1EEF>\<close>, [108, 7883, 99, 104, 32, 115, 7917] \<comment> \<open>l<U+1ECB>ch s<U+1EED>\<close>, [273, 7883, 97, 32, 108, 253] \<comment> \<open><U+0111><U+1ECB>a l<U+00FD>\<close>, [115, 7917] \<comment> \<open>s<U+1EED>\<close>, [273, 7883, 97] \<comment> \<open><U+0111><U+1ECB>a\<close>,
      [107, 104, 111, 97, 32, 104, 7885, 99, 32, 116, 7921, 32, 110, 104, 105, 234, 110] \<comment> \<open>khoa h<U+1ECD>c t<U+1EF1> nhi<U+00EA>n\<close>, [107, 104, 116, 110] \<comment> \<open>khtn\<close>, [108, 253] \<comment> \<open>l<U+00FD>\<close>, [104, 243, 97] \<comment> \<open>h<U+00F3>a\<close>, [115, 105, 110, 104] \<comment> \<open>sinh\<close>, [118, 7853, 116, 32, 108, 253] \<comment> \<open>v<U+1EAD>t l<U+00FD>\<close>, [118, 7853, 116, 32, 108, 237] \<comment> \<open>v<U+1EAD>t l<U+00ED>\<close>,
      [115, 105, 110, 104, 32, 104, 7885, 99] \<comment> \<open>sinh h<U+1ECD>c\<close>, [104, 243, 97, 32, 104, 7885, 99] \<comment> \<open>h<U+00F3>a h<U+1ECD>c\<close>, [116, 105, 110] \<comment> \<open>tin\<close>, [116, 105, 110, 32, 104, 7885, 99] \<comment> \<open>tin h<U+1ECD>c\<close>, [97, 110, 104] \<comment> \<open>anh\<close>, [110, 103, 111, 7841, 105, 32, 110, 103, 7919] \<comment> \<open>ngo<U+1EA1>i ng<U+1EEF>\<close>, [116, 105, 7871, 110, 103, 32, 97, 110, 104] \<comment> \<open>ti<U+1EBF>ng anh\<close>,
      [103, 100, 99, 100] \<comment> \<open>gdcd\<close>, [99, 244, 110, 103, 32, 100, 226, 110] \<comment> \<open>c<U+00F4>ng d<U+00E2>n\<close>, [99, 244, 110, 103, 32, 110, 103, 104, 7879] \<comment> \<open>c<U+00F4>ng ngh<U+1EC7>\<close>, [116, 104, 7875, 32, 100, 7909, 99] \<comment> \<open>th<U+1EC3> d<U+1EE5>c\<close>, [103, 100, 116, 99] \<comment> \<open>gdtc\<close>, [116, 104, 7875, 32, 99, 104, 7845, 116] \<comment> \<open>th<U+1EC3> ch<U+1EA5>t\<close>, [110, 104, 7841, 99] \<comment> \<open>nh<U+1EA1>c\<close>,
      [109, 7929, 32, 116, 104, 117, 7853, 116] \<comment> \<open>m<U+1EF9> thu<U+1EAD>t\<close>, [226, 109, 32, 110, 104, 7841, 99] \<comment> \<open><U+00E2>m nh<U+1EA1>c\<close>, [110, 103, 104, 7879, 32, 116, 104, 117, 7853, 116] \<comment> \<open>ngh<U+1EC7> thu<U+1EAD>t\<close>, [273, 7883, 97, 32, 112, 104, 432, 417, 110, 103] \<comment> \<open><U+0111><U+1ECB>a ph<U+01B0><U+01A1>ng\<close>, [110, 100, 103, 100, 99, 273, 112] \<comment> \<open>ndgdc<U+0111>p\<close>, [116, 114, 7843, 105, 32, 110, 103, 104, 105, 7879, 109] \<comment> \<open>tr<U+1EA3>i nghi<U+1EC7>m\<close>,
      [104, 432, 7899, 110, 103, 32, 110, 103, 104, 105, 7879, 112] \<comment> \<open>h<U+01B0><U+1EDB>ng nghi<U+1EC7>p\<close>, [104, 273, 116, 110] \<comment> \<open>h<U+0111>tn\<close>]"

definition subjectLabels :: "jsstring list" where
  "subjectLabels =
     [[84, 111, 225, 110] \<comment> \<open>To<U+00E1>n\<close>, [86, 259, 110] \<comment> \<open>V<U+0103>n\<close>, [76, 83, 32, 38, 32, 272, 76] \<comment> \<open>LS & <U+0110>L\<close>, [75, 72, 84, 78] \<comment> \<open>KHTN\<close>, [84, 105, 110, 32, 104, 7885, 99] \<comment> \<open>Tin h<U+1ECD>c\<close>, [78, 103, 46, 110, 103, 7919] \<comment> \<open>Ng.ng<U+1EEF>\<close>, [71, 68, 67, 68] \<comment> \<open>GDCD\<close>, [67, 46, 110, 103, 104, 7879] \<comment> \<open>C.ngh<U+1EC7>\<close>,
      [71, 68, 84, 67] \<comment> \<open>GDTC\<close>, [78, 103, 104, 7879, 32, 116, 104, 117, 7853, 116] \<comment> \<open>Ngh<U+1EC7> thu<U+1EAD>t\<close>, [78, 68, 71, 68, 67, 272, 80] \<comment> \<open>NDGDC<U+0110>P\<close>, [72, 272, 84, 78, 38, 72, 78] \<comment> \<open>H<U+0110>TN&HN\<close>]"

definition headerText :: "runtime \<Rightarrow> cell list list \<Rightarrow> jsstring" where
  "headerText rt rows = toLowerCase rt (flatJoin rt (take 5 rows))"

subsection \<open>The content of a record\<close>

text \<open>A record with its \<open>id\<close> blanked: every field but the identifier.\<close>

definition contentOf :: "StudentData \<Rightarrow> StudentData" where
  "contentOf st = st\<lparr>ident := []\<rparr>"

subsection \<open>The cells right of the name\<close>

text \<open>
  The cells strictly right of index \<open>e\<close>, from left to right, each as \<open>row[j]\<close> reads
  it.
\<close>

definition cellsAfter :: "cell list \<Rightarrow> int \<Rightarrow> cell list" where
  "cellsAfter row e = map (cellAt row) [e + 1 .. int (length row) - 1]"

subsection \<open>What the subject teacher's loop sees in a cell\<close>

text \<open>
  \<open>cellNumber\<close> is \<open>cellNum\<close> and \<open>cellCode\<close> is \<open>upper\<close> of the loop. A score cell is
  a cell that is not blank and parses as a number in [0, 10]; a cell matches the rating
  codes when it is not blank and its upper-cased text is one of them; a rating cell is
  one that matches and does not parse as a number, which is when the loop looks at the
  codes.
\<close>

definition cellNumber :: "runtime \<Rightarrow> cell \<Rightarrow> jsnum" where
  "cellNumber rt c = parseFloat (replaceComma (trim (toString rt c)))"

definition cellCode :: "runtime \<Rightarrow> cell \<Rightarrow> jsstring" where
  "cellCode rt c = toUpperCase rt (replaceComma (trim (toString rt c)))"

definition isScoreCell :: "runtime \<Rightarrow> cell \<Rightarrow> bool" where
  "isScoreCell rt c \<longleftrightarrow>
     \<not> isBlank rt c \<and> \<not> isNaN (cellNumber rt c) \<and>
     jsLessEq (Fin 0) (cellNumber rt c) \<and> jsLessEq (cellNumber rt c) (Fin 10)"

definition isRatingCode :: "runtime \<Rightarrow> cell \<Rightarrow> bool" where
  "isRatingCode rt c \<longleftrightarrow> \<not> isBlank rt c \<and> isSubjectRating (cellCode rt c)"

definition isRatingCell :: "runtime \<Rightarrow> cell \<Rightarrow> bool" where
  "isRatingCell rt c \<longleftrightarrow> isRatingCode rt c \<and> isNaN (cellNumber rt c)"

text \<open>
  Two readings of the search over the cells in the order they are visited. In the
  first the score has priority over the whole row: the first score cell if there is
  one, and only failing that the first cell that matches the rating codes. In the
  second the first cell that is a score cell or a rating cell decides.
\<close>

definition scoreThenRating :: "runtime \<Rightarrow> cell list \<Rightarrow> jsnum option \<times> jsstring option" where
  "scoreThenRating rt cells =
     (case find (isScoreCell rt) cells of
        Some c \<Rightarrow> (Some (cellNumber rt c), None)
      | None \<Rightarrow>
          (case find (isRatingCode rt) cells of
             Some c \<Rightarrow> (None, Some (cellCode rt c))
           | None \<Rightarrow> (None, None)))"

definition firstMatch :: "runtime \<Rightarrow> cell list \<Rightarrow> jsnum option \<times> jsstring option" where
  "firstMatch rt cells =
     (case find (\<lambda>c. isScoreCell rt c \<or> isRatingCell rt c) cells of
        None \<Rightarrow> (None, None)
      | Some c \<Rightarrow>
          if isScoreCell rt c then (Some (cellNumber rt c), None)
          else (None, Some (cellCode rt c)))"

subsection \<open>What the homeroom teacher's loop sees in a cell\<close>

text \<open>
  \<open>cellText\<close> is \<open>str\<close> of the loop. A rating cell is not blank and its upper-cased
  text is a rating code; an absence cell is not blank, not a rating cell, all digits,
  and its value is at least 0 and below 60. \<open>ratingsIn\<close> is the list of the rating
  codes in order, \<open>absencesIn\<close> the value of the last absence cell.
\<close>

definition cellText :: "runtime \<Rightarrow> cell \<Rightarrow> jsstring" where
  "cellText rt c = trim (toString rt c)"

definition isHomeroomRatingCell :: "runtime \<Rightarrow> cell \<Rightarrow> bool" where
  "isHomeroomRatingCell rt c \<longleftrightarrow>
     \<not> isBlank rt c \<and> isHomeroomRating (toUpperCase rt (cellText rt c))"

definition isAbsenceCell :: "runtime \<Rightarrow> cell \<Rightarrow> bool" where
  "isAbsenceCell rt c \<longleftrightarrow>
     \<not> isBlank rt c \<and> \<not> isHomeroomRatingCell rt c \<and> allDigits (cellText rt c) \<and>
     jsLessEq (Fin 0) (parseInt (cellText rt c)) \<and> jsLess (parseInt (cellText rt c)) (Fin 60)"

definition ratingsIn :: "runtime \<Rightarrow> cell list \<Rightarrow> jsstring list" where
  "ratingsIn rt cells =
     map (\<lambda>c. toUpperCase rt (cellText rt c)) (filter (isHomeroomRatingCell rt) cells)"

definition absencesIn :: "runtime \<Rightarrow> cell list \<Rightarrow> jsnum option" where
  "absencesIn rt cells =
     (if filter (isAbsenceCell rt) cells = [] then None
      else Some (parseInt (cellText rt (last (filter (isAbsenceCell rt) cells)))))"

subsection \<open>The name of a row and the row number\<close>

text \<open>
  \<open>nameEndIndex\<close> and \<open>fullName\<close> as the name loop leaves them for a row, and the
  identifier \<open>parseExcelData\<close> gives the record of a row.
\<close>

definition nameEndIndexOf :: "runtime \<Rightarrow> cell list \<Rightarrow> int" where
  "nameEndIndexOf rt row = snd (nameLoop rt row 0 [] (- 1))"

definition fullNameOf :: "runtime \<Rightarrow> cell list \<Rightarrow> jsstring" where
  "fullNameOf rt row = trim (joinSpace (fst (nameLoop rt row 0 [] (- 1))))"

definition xlsIdent :: "nat \<Rightarrow> nat \<Rightarrow> jsstring" where
  "xlsIdent now rowIndex = [115, 116, 117, 100, 101, 110, 116, 45, 120, 108, 115, 45] \<comment> \<open>student-xls-\<close> @ decimal now @ [45] \<comment> \<open>-\<close> @ decimal rowIndex"

text \<open>
  A cell that holds a positive integer smaller than 1000: a number cell whose value is
  an integer in that range, or a text cell whose trimmed content is a string of digits
  with a value in that range.
\<close>

definition holdsRowNumber :: "cell \<Rightarrow> bool" where
  "holdsRowNumber c =
     (case c of
        Number x \<Rightarrow> (case x of Fin q \<Rightarrow> q = of_int \<lfloor>q\<rfloor> \<and> 0 < q \<and> q < 1000 | _ \<Rightarrow> False)
      | Text s \<Rightarrow> allDigits (trim s) \<and> 0 < digitsVal (trim s) \<and> digitsVal (trim s) < 1000
      | _ \<Rightarrow> False)"

subsection \<open>The name span\<close>

text \<open>
  \<open>rowCells\<close> are the cells of a row as \<open>row[i]\<close> reads them. \<open>nameSpan\<close> follows the
  words of the specification from the first name part on: a cell belongs to the span
  as long as it is a name part, or is blank and immediately followed by a name part;
  the span ends at the first cell that is neither. \<open>leadOf\<close> are the cells before the
  first name part and \<open>nameSpanOf\<close> is the span of a row.
\<close>

definition rowCells :: "cell list \<Rightarrow> cell list" where
  "rowCells row = cellsAfter row (- 1)"

fun nameSpan :: "runtime \<Rightarrow> cell list \<Rightarrow> cell list" where
  "nameSpan rt [] = []"
| "nameSpan rt (c # cs) =
     (if isNamePart rt c \<or> (isBlank rt c \<and> cs \<noteq> [] \<and> isNamePart rt (hd cs))
      then c # nameSpan rt cs
      else [])"

definition leadOf :: "runtime \<Rightarrow> cell list \<Rightarrow> cell list" where
  "leadOf rt row = takeWhile (\<lambda>c. \<not> isNamePart rt c) (rowCells row)"

definition nameSpanOf :: "runtime \<Rightarrow> cell list \<Rightarrow> cell list" where
  "nameSpanOf rt row = nameSpan rt (dropWhile (\<lambda>c. \<not> isNamePart rt c) (rowCells row))"

section \<open>Evaluation\<close>

text \<open>The equations that evaluate the parser on a concrete row.\<close>

lemmas row_eval =
  processRow_def nameLoop.simps subjectLoop.simps homeroomLoop.simps cellAt_def isNumeric_def
  isNamePart_def isBlank_def trim_def isWhiteSpace_def hasDigit_def allDigits_def isDigit_def
  exampleRuntime_def upperUnit_def lowerUnit_def keywordList_def isAbbreviation_def
  nameRejected_def isSubjectRating_def isHomeroomRating_def parseFloat_def trimStart_def
  unsignedLiteral_def exponentPart_def digitsVal_def toDouble_def floorLog2_def
  bitLength.simps roundHalfEven_def isNaN_def jsLess_def jsLessEq_def hasIndex_def
  toNumber_def assignRatings_def parseInt_def decimal.simps fixedClock_def Let_def

lemmas grid_eval =
  rawDataOf_def gridLibrary_def unreadableLibrary_def emptyWorkbookLibrary_def

lemmas header_eval =
  headerText_def flatJoin_def joinItem_def exampleRuntime_def lowerUnit_def subjectKeywords_def

lemmas scan_eval =
  cellsAfter_def nameEndIndexOf_def fullNameOf_def scoreThenRating_def firstMatch_def
  isScoreCell_def isRatingCode_def isRatingCell_def cellNumber_def cellCode_def
  cellText_def isHomeroomRatingCell_def isAbsenceCell_def ratingsIn_def absencesIn_def


section \<open>The grid and its rows\<close>

lemma parseExcelData_rawData:
  "parseExcelData rt lib clock data role =
     (case rawDataOf lib data of
        None \<Rightarrow> \<lparr>students = [], detectedSubject = None\<rparr>
      | Some rows \<Rightarrow>
          if rows = [] then \<lparr>students = [], detectedSubject = None\<rparr>
          else \<lparr>students = forEachRow rt role clock rows 0 [],
                detectedSubject = detectSubject rt (take 5 rows)\<rparr>)"
  by (simp add: parseExcelData_def parseExcelData_try_def rawDataOf_def
      split: sum.splits option.splits list.splits)

lemma forEachRow_acc:
  "forEachRow rt role clock rows k acc = acc @ forEachRow rt role clock rows k []"
proof (induction rows arbitrary: k acc)
  case Nil
  show ?case by simp
next
  case (Cons row rows)
  show ?case
  proof (cases "processRow rt role (clock k) k row")
    case None
    then show ?thesis using Cons.IH [of "k + 1" acc] by simp
  next
    case (Some st)
    then show ?thesis
      using Cons.IH [of "k + 1" "acc @ [st]"] Cons.IH [of "k + 1" "[st]"] by simp
  qed
qed

lemma forEachRow_Cons:
  "forEachRow rt role clock (row # rows) k [] =
     (case processRow rt role (clock k) k row of None \<Rightarrow> [] | Some st \<Rightarrow> [st]) @
     forEachRow rt role clock rows (k + 1) []"
proof (cases "processRow rt role (clock k) k row")
  case None
  then show ?thesis by simp
next
  case (Some st)
  then show ?thesis using forEachRow_acc [of rt role clock rows "k + 1" "[st]"] by simp
qed

lemma forEachRow_member:
  "st \<in> set (forEachRow rt role clock rows k []) \<Longrightarrow>
   \<exists>i < length rows. processRow rt role (clock (k + i)) (k + i) (rows ! i) = Some st"
proof (induction rows arbitrary: k)
  case Nil
  then show ?case by simp
next
  case (Cons row rows)
  from Cons.prems have
    "st \<in> set (case processRow rt role (clock k) k row of None \<Rightarrow> [] | Some s \<Rightarrow> [s]) \<or>
     st \<in> set (forEachRow rt role clock rows (k + 1) [])"
    by (simp only: forEachRow_Cons set_append Un_iff)
  then show ?case
  proof
    assume "st \<in> set (case processRow rt role (clock k) k row of None \<Rightarrow> [] | Some s \<Rightarrow> [s])"
    then have "processRow rt role (clock k) k row = Some st"
      by (simp split: option.splits)
    then have "processRow rt role (clock (k + 0)) (k + 0) ((row # rows) ! 0) = Some st" by simp
    then show ?thesis by blast
  next
    assume "st \<in> set (forEachRow rt role clock rows (k + 1) [])"
    from Cons.IH [OF this] obtain i where
      "i < length rows" "processRow rt role (clock (k + 1 + i)) (k + 1 + i) (rows ! i) = Some st"
      by blast
    then have "Suc i < length (row # rows) \<and>
        processRow rt role (clock (k + Suc i)) (k + Suc i) ((row # rows) ! Suc i) = Some st"
      by simp
    then show ?thesis by blast
  qed
qed

lemma forEachRow_none:
  "(\<And>i. i < length rows \<Longrightarrow> processRow rt role (clock (k + i)) (k + i) (rows ! i) = None) \<Longrightarrow>
   forEachRow rt role clock rows k [] = []"
proof (cases "forEachRow rt role clock rows k []")
  case Nil
  then show ?thesis .
next
  case (Cons st sts)
  then have "st \<in> set (forEachRow rt role clock rows k [])" by simp
  from forEachRow_member [OF this] obtain i where
    "i < length rows" "processRow rt role (clock (k + i)) (k + i) (rows ! i) = Some st" by blast
  moreover assume "\<And>i. i < length rows \<Longrightarrow> processRow rt role (clock (k + i)) (k + i) (rows ! i) = None"
  ultimately show ?thesis by fastforce
qed

lemma students_member:
  "st \<in> set (students (parseExcelData rt lib clock data role)) \<Longrightarrow>
   \<exists>rows i. rawDataOf lib data = Some rows \<and> i < length rows \<and>
     processRow rt role (clock i) i (rows ! i) = Some st"
proof -
  assume mem: "st \<in> set (students (parseExcelData rt lib clock data role))"
  show ?thesis
  proof (cases "rawDataOf lib data")
    case None
    with mem show ?thesis by (simp add: parseExcelData_rawData)
  next
    case (Some rows)
    with mem have "st \<in> set (forEachRow rt role clock rows 0 [])"
      by (simp add: parseExcelData_rawData split: if_splits)
    from forEachRow_member [OF this] Some show ?thesis by auto
  qed
qed

section \<open>The two loops over the cells right of the name\<close>

lemma subjectLoop_step:
  "e < j \<Longrightarrow>
   subjectLoop rt row j e =
     (if isScoreCell rt (cellAt row j) then (Some (cellNumber rt (cellAt row j)), None)
      else if isRatingCell rt (cellAt row j) then (None, Some (cellCode rt (cellAt row j)))
      else subjectLoop rt row (j - 1) e)"
  by (subst subjectLoop.simps)
     (auto simp add: isScoreCell_def isRatingCell_def isRatingCode_def cellNumber_def
        cellCode_def Let_def)

lemma subjectLoop_firstMatch:
  "subjectLoop rt row j e = firstMatch rt (rev (map (cellAt row) [e + 1 .. j]))"
proof (induction "nat (j - e)" arbitrary: j)
  case 0
  then have "\<not> e < j" by simp
  then show ?case
    by (subst subjectLoop.simps) (simp add: firstMatch_def)
next
  case (Suc k)
  then have lt: "e < j" and k: "k = nat (j - 1 - e)" by simp_all
  have u: "[e + 1 .. j] = [e + 1 .. j - 1] @ [j]"
    using lt by (simp add: upto_rec2)
  have ih: "subjectLoop rt row (j - 1) e = firstMatch rt (rev (map (cellAt row) [e + 1 .. j - 1]))"
    using Suc.hyps(1) [OF k] .
  show ?case
    by (simp add: subjectLoop_step [OF lt] ih u firstMatch_def)
qed

lemma firstMatch_at_most_one:
  "firstMatch rt cells = (sc, ra) \<Longrightarrow> sc = None \<or> ra = None"
  by (auto simp add: firstMatch_def split: option.splits if_splits)

lemma homeroomLoop_step:
  "j < int (length row) \<Longrightarrow>
   homeroomLoop rt row j rf ab =
     (if isHomeroomRatingCell rt (cellAt row j)
      then homeroomLoop rt row (j + 1) (rf @ [toUpperCase rt (cellText rt (cellAt row j))]) ab
      else if isAbsenceCell rt (cellAt row j)
      then homeroomLoop rt row (j + 1) rf (Some (parseInt (cellText rt (cellAt row j))))
      else homeroomLoop rt row (j + 1) rf ab)"
  by (subst homeroomLoop.simps)
     (auto simp add: isHomeroomRatingCell_def isAbsenceCell_def cellText_def Let_def)

lemma homeroomLoop_spec:
  "homeroomLoop rt row j rf ab =
     (rf @ ratingsIn rt (map (cellAt row) [j .. int (length row) - 1]),
      case absencesIn rt (map (cellAt row) [j .. int (length row) - 1]) of
        None \<Rightarrow> ab | Some n \<Rightarrow> Some n)"
proof (induction "nat (int (length row) - j)" arbitrary: j rf ab)
  case 0
  then have "\<not> j < int (length row)" by simp
  then show ?case
    by (subst homeroomLoop.simps) (simp add: ratingsIn_def absencesIn_def)
next
  case (Suc k)
  then have lt: "j < int (length row)" and k: "k = nat (int (length row) - (j + 1))"
    by simp_all
  have u: "[j .. int (length row) - 1] = j # [j + 1 .. int (length row) - 1]"
    using lt by (simp add: upto_rec1)
  note ih = Suc.hyps(1) [OF k]
  show ?case
    by (simp add: homeroomLoop_step [OF lt] ih u ratingsIn_def absencesIn_def
        isAbsenceCell_def)
qed

section \<open>One row, by role\<close>

lemma processRow_SUBJECT:
  "processRow rt SUBJECT now idx row =
     (if row = [] \<or> nameRejected rt (fullNameOf rt row) then None
      else case firstMatch rt (rev (cellsAfter row (nameEndIndexOf rt row))) of
        (sc, ra) \<Rightarrow>
          if \<not> hasIndex row \<and> sc = None \<and> ra = None then None
          else Some \<lparr>ident = xlsIdent now idx, name = fullNameOf rt row, comment = [],
                      isProcessing = False, subjectScore = sc, subjectRating = ra,
                      academicResult = None, conductRating = None, absences = None\<rparr>)"
  by (simp add: processRow_def fullNameOf_def nameEndIndexOf_def cellsAfter_def xlsIdent_def
      subjectLoop_firstMatch assignRatings_def Let_def split: prod.splits)

lemma processRow_HOMEROOM:
  "processRow rt HOMEROOM now idx row =
     (if row = [] \<or> nameRejected rt (fullNameOf rt row) then None
      else case assignRatings (ratingsIn rt (cellsAfter row (nameEndIndexOf rt row))) of
        (ac, co) \<Rightarrow>
          if \<not> hasIndex row \<and> ac = None \<and> co = None \<and>
             absencesIn rt (cellsAfter row (nameEndIndexOf rt row)) = None then None
          else Some \<lparr>ident = xlsIdent now idx, name = fullNameOf rt row, comment = [],
                      isProcessing = False, subjectScore = None, subjectRating = None,
                      academicResult = ac, conductRating = co,
                      absences = absencesIn rt (cellsAfter row (nameEndIndexOf rt row))\<rparr>)"
  by (simp add: processRow_def fullNameOf_def nameEndIndexOf_def cellsAfter_def xlsIdent_def
      homeroomLoop_spec Let_def split: prod.splits option.splits)

lemma forEachRow_emits:
  "i < length rows \<Longrightarrow> processRow rt role (clock (k + i)) (k + i) (rows ! i) = Some st \<Longrightarrow>
   st \<in> set (forEachRow rt role clock rows k [])"
proof (induction rows arbitrary: k i)
  case Nil
  then show ?case by simp
next
  case (Cons row rows)
  show ?case
  proof (cases i)
    case 0
    with Cons.prems show ?thesis
      by (simp only: forEachRow_Cons) simp
  next
    case (Suc m)
    with Cons.prems have "m < length rows"
      "processRow rt role (clock (k + 1 + m)) (k + 1 + m) (rows ! m) = Some st"
      by simp_all
    from Cons.IH [OF this] show ?thesis
      by (simp only: forEachRow_Cons) simp
  qed
qed

lemma students_emits:
  "rawDataOf lib data = Some rows \<Longrightarrow> i < length rows \<Longrightarrow>
   processRow rt role (clock i) i (rows ! i) = Some st \<Longrightarrow>
   st \<in> set (students (parseExcelData rt lib clock data role))"
  using forEachRow_emits [of i rows rt role clock 0 st]
  by (auto simp add: parseExcelData_rawData)

lemma firstMatch_none:
  "\<forall>c \<in> set cells. \<not> isScoreCell rt c \<and> \<not> isRatingCell rt c \<Longrightarrow>
   firstMatch rt cells = (None, None)"
  by (simp add: firstMatch_def find_None_iff split: option.splits)

lemma assignRatings_first_two:
  "assignRatings rs =
     (if rs = [] then None else Some (rs ! 0), if length rs < 2 then None else Some (rs ! 1))"
proof (cases rs)
  case Nil
  then show ?thesis by (simp add: assignRatings_def)
next
  case (Cons r rs')
  then show ?thesis by (cases rs') (simp_all add: assignRatings_def)
qed

section \<open>Degenerate inputs\<close>

text \<open>
  Claim C7. \<open>parseExcelData\<close> returns a result on every input: it is a total function
  of the model, every loop of which terminates, and an exception of the library is
  caught. In each degenerate case the list of students returned is empty: the library
  throws on reading; the workbook has no sheet names; the first sheet named is missing;
  the conversion of the sheet throws; the sheet has no row; no row of the grid yields a
  record.
\<close>

theorem parseExcelData_never_raises:
  "(\<forall>e. xlsxRead lib data = Inl e \<longrightarrow> students (parseExcelData rt lib clock data role) = []) \<and>
   (\<forall>wb. xlsxRead lib data = Inr wb \<and> (SheetNames wb = None \<or> SheetNames wb = Some []) \<longrightarrow>
      students (parseExcelData rt lib clock data role) = []) \<and>
   (\<forall>wb n ns. xlsxRead lib data = Inr wb \<and> SheetNames wb = Some (n # ns) \<and> Sheets wb n = None \<longrightarrow>
      students (parseExcelData rt lib clock data role) = []) \<and>
   (\<forall>wb n ns ws e. xlsxRead lib data = Inr wb \<and> SheetNames wb = Some (n # ns) \<and>
        Sheets wb n = Some ws \<and> sheet_to_json lib ws = Inl e \<longrightarrow>
      students (parseExcelData rt lib clock data role) = []) \<and>
   (rawDataOf lib data = Some [] \<longrightarrow> students (parseExcelData rt lib clock data role) = []) \<and>
   (\<forall>rows. rawDataOf lib data = Some rows \<and>
        (\<forall>i < length rows. processRow rt role (clock i) i (rows ! i) = None) \<longrightarrow>
      students (parseExcelData rt lib clock data role) = [])"
proof (intro conjI allI impI)
  fix e assume "xlsxRead lib data = Inl e"
  then show "students (parseExcelData rt lib clock data role) = []"
    by (simp add: parseExcelData_def parseExcelData_try_def)
next
  fix wb assume "xlsxRead lib data = Inr wb \<and> (SheetNames wb = None \<or> SheetNames wb = Some [])"
  then show "students (parseExcelData rt lib clock data role) = []"
    by (auto simp add: parseExcelData_def parseExcelData_try_def)
next
  fix wb n ns
  assume "xlsxRead lib data = Inr wb \<and> SheetNames wb = Some (n # ns) \<and> Sheets wb n = None"
  then show "students (parseExcelData rt lib clock data role) = []"
    by (simp add: parseExcelData_def parseExcelData_try_def)
next
  fix wb n ns ws e
  assume "xlsxRead lib data = Inr wb \<and> SheetNames wb = Some (n # ns) \<and>
        Sheets wb n = Some ws \<and> sheet_to_json lib ws = Inl e"
  then show "students (parseExcelData rt lib clock data role) = []"
    by (simp add: parseExcelData_def parseExcelData_try_def)
next
  assume "rawDataOf lib data = Some []"
  then show "students (parseExcelData rt lib clock data role) = []"
    by (simp add: parseExcelData_rawData)
next
  fix rows
  assume h: "rawDataOf lib data = Some rows \<and>
        (\<forall>i < length rows. processRow rt role (clock i) i (rows ! i) = None)"
  then have "forEachRow rt role clock rows 0 [] = []"
    using forEachRow_none [of rows rt role clock 0] by simp
  with h show "students (parseExcelData rt lib clock data role) = []"
    by (simp add: parseExcelData_rawData)
qed

text \<open>
  The cases at work: a library that throws, a workbook without sheets, an empty sheet,
  and a sheet whose only row is the header STT, H<U+1ECC> V<U+00C0> T<U+00CA>N, <U+0110>I<U+1EC2>M.
\<close>

theorem parseExcelData_never_raises_witness:
  "students (parseExcelData exampleRuntime unreadableLibrary (fixedClock 0) (ArrayBuffer []) SUBJECT) = [] \<and>
   students (parseExcelData exampleRuntime emptyWorkbookLibrary (fixedClock 0) (ArrayBuffer []) SUBJECT) = [] \<and>
   students (parseExcelData exampleRuntime (gridLibrary []) (fixedClock 0) (ArrayBuffer []) SUBJECT) = [] \<and>
   students (parseExcelData exampleRuntime
      (gridLibrary [[Text [83, 84, 84], Text [72, 7884, 32, 86, 192, 32, 84, 202, 78], Text [272, 73, 7874, 77]]])
      (fixedClock 0) (ArrayBuffer []) SUBJECT) = []"
proof -
  have h1: "xlsxRead unreadableLibrary (ArrayBuffer []) = Inl Thrown"
    by (simp add: grid_eval)
  have h2: "xlsxRead emptyWorkbookLibrary (ArrayBuffer []) =
      Inr \<lparr>SheetNames = Some [], Sheets = (\<lambda>n. None)\<rparr> \<and>
      (SheetNames \<lparr>SheetNames = Some [], Sheets = (\<lambda>n. None)\<rparr> = None \<or>
       SheetNames \<lparr>SheetNames = Some [], Sheets = (\<lambda>n. None)\<rparr> = Some [])"
    by (simp add: grid_eval)
  have h3: "rawDataOf (gridLibrary []) (ArrayBuffer []) = Some []"
    by (simp add: grid_eval)
  have h4: "rawDataOf (gridLibrary [[Text [83, 84, 84], Text [72, 7884, 32, 86, 192, 32, 84, 202, 78], Text [272, 73, 7874, 77]]])
        (ArrayBuffer []) = Some [[Text [83, 84, 84], Text [72, 7884, 32, 86, 192, 32, 84, 202, 78], Text [272, 73, 7874, 77]]] \<and>
      (\<forall>i < length [[Text [83, 84, 84], Text [72, 7884, 32, 86, 192, 32, 84, 202, 78], Text [272, 73, 7874, 77]]].
         processRow exampleRuntime SUBJECT ((fixedClock 0) i) i
           ([[Text [83, 84, 84], Text [72, 7884, 32, 86, 192, 32, 84, 202, 78], Text [272, 73, 7874, 77]]] ! i) = None)"
    by (simp add: grid_eval row_eval)
  from h1 parseExcelData_never_raises
    [of unreadableLibrary "ArrayBuffer []" exampleRuntime "fixedClock 0" SUBJECT]
  have c1: "students (parseExcelData exampleRuntime unreadableLibrary (fixedClock 0) (ArrayBuffer [])
      SUBJECT) = []"
    by blast
  from h2 parseExcelData_never_raises
    [of emptyWorkbookLibrary "ArrayBuffer []" exampleRuntime "fixedClock 0" SUBJECT]
  have c2: "students (parseExcelData exampleRuntime emptyWorkbookLibrary (fixedClock 0) (ArrayBuffer [])
      SUBJECT) = []"
    by blast
  from h3 parseExcelData_never_raises
    [of "gridLibrary []" "ArrayBuffer []" exampleRuntime "fixedClock 0" SUBJECT]
  have c3: "students (parseExcelData exampleRuntime (gridLibrary []) (fixedClock 0) (ArrayBuffer [])
      SUBJECT) = []"
    by blast
  from h4 parseExcelData_never_raises
    [of "gridLibrary [[Text [83, 84, 84], Text [72, 7884, 32, 86, 192, 32, 84, 202, 78], Text [272, 73, 7874, 77]]]" "ArrayBuffer []"
        exampleRuntime "fixedClock 0" SUBJECT]
  have c4: "students (parseExcelData exampleRuntime
      (gridLibrary [[Text [83, 84, 84], Text [72, 7884, 32, 86, 192, 32, 84, 202, 78], Text [272, 73, 7874, 77]]])
      (fixedClock 0) (ArrayBuffer []) SUBJECT) = []"
    by blast
  from c1 c2 c3 c4 show ?thesis by blast
qed

section \<open>Subject detection\<close>

lemma detectSubject_label: "detectSubject rt headers = Some s \<Longrightarrow> s \<in> set subjectLabels"
  by (simp add: detectSubject_def subjectLabels_def Let_def split: if_splits)

lemma detectSubject_toan:
  "includesStr (toLowerCase rt (flatJoin rt headers)) [116, 111, 225, 110] \<Longrightarrow>
   detectSubject rt headers = Some [84, 111, 225, 110]"
  by (simp add: detectSubject_def Let_def)

lemma detectSubject_none:
  "\<forall>k \<in> set subjectKeywords. \<not> includesStr (toLowerCase rt (flatJoin rt headers)) k \<Longrightarrow>
   detectSubject rt headers = None"
  by (simp add: detectSubject_def subjectKeywords_def Let_def)

text \<open>
  Claim C6. Whenever \<open>parseExcelData\<close> returns a detected subject, it is one of the
  twelve canonical labels. When the grid has a row and the joined, lower-cased text of
  its first five rows contains \<open>to<U+00E1>n\<close>, the detected subject is \<open>To<U+00E1>n\<close>; when
  that text contains none of the keywords, no subject is detected.
\<close>

theorem detectedSubject_closed_set:
  "(\<forall>s. detectedSubject (parseExcelData rt lib clock data role) = Some s \<longrightarrow> s \<in> set subjectLabels) \<and>
   (\<forall>rows. rawDataOf lib data = Some rows \<and> rows \<noteq> [] \<longrightarrow>
      (includesStr (headerText rt rows) [116, 111, 225, 110] \<longrightarrow>
         detectedSubject (parseExcelData rt lib clock data role) = Some [84, 111, 225, 110]) \<and>
      ((\<forall>k \<in> set subjectKeywords. \<not> includesStr (headerText rt rows) k) \<longrightarrow>
         detectedSubject (parseExcelData rt lib clock data role) = None))"
proof (intro conjI allI impI)
  fix s assume "detectedSubject (parseExcelData rt lib clock data role) = Some s"
  then show "s \<in> set subjectLabels"
    by (auto simp add: parseExcelData_rawData dest: detectSubject_label
        split: option.splits if_splits)
next
  fix rows
  assume "rawDataOf lib data = Some rows \<and> rows \<noteq> []" "includesStr (headerText rt rows) [116, 111, 225, 110]"
  then show "detectedSubject (parseExcelData rt lib clock data role) = Some [84, 111, 225, 110]"
    by (simp add: parseExcelData_rawData headerText_def detectSubject_toan)
next
  fix rows
  assume "rawDataOf lib data = Some rows \<and> rows \<noteq> []"
    "\<forall>k \<in> set subjectKeywords. \<not> includesStr (headerText rt rows) k"
  then show "detectedSubject (parseExcelData rt lib clock data role) = None"
    using detectSubject_none [of rt "take 5 rows"]
    by (simp add: parseExcelData_rawData headerText_def)
qed

text \<open>
  A header row with the cell \<open>M<U+00F4>n To<U+00E1>n\<close> gives \<open>To<U+00E1>n\<close>, one of the labels; a
  header row with only \<open>STT\<close> and the number 2 gives no subject.
\<close>

theorem detectedSubject_closed_set_witness:
  "includesStr (headerText exampleRuntime [[Text [83, 84, 84], Hole, Text [77, 244, 110, 32, 84, 111, 225, 110]]]) [116, 111, 225, 110] \<and>
   detectedSubject (parseExcelData exampleRuntime
      (gridLibrary [[Text [83, 84, 84], Hole, Text [77, 244, 110, 32, 84, 111, 225, 110]]]) (fixedClock 0) (ArrayBuffer []) SUBJECT)
     = Some [84, 111, 225, 110] \<and>
   [84, 111, 225, 110] \<in> set subjectLabels \<and>
   detectedSubject (parseExcelData exampleRuntime
      (gridLibrary [[Text [83, 84, 84], Number (Fin 2)]]) (fixedClock 0) (ArrayBuffer []) SUBJECT) = None"
proof -
  let ?g = "[[Text [83, 84, 84], Hole, Text [77, 244, 110, 32, 84, 111, 225, 110]]]"
  let ?h = "[[Text [83, 84, 84], Number (Fin 2)]]"
  have g: "rawDataOf (gridLibrary ?g) (ArrayBuffer []) = Some ?g \<and> ?g \<noteq> []"
    by (simp add: grid_eval)
  have i: "includesStr (headerText exampleRuntime ?g) [116, 111, 225, 110]"
    by (simp add: header_eval)
  have h: "rawDataOf (gridLibrary ?h) (ArrayBuffer []) = Some ?h \<and> ?h \<noteq> []"
    by (simp add: grid_eval)
  have n: "\<forall>k \<in> set subjectKeywords. \<not> includesStr (headerText exampleRuntime ?h) k"
    by (simp add: header_eval integerToString_def decimal.simps)
  from g i detectedSubject_closed_set
    [of exampleRuntime "gridLibrary ?g" "fixedClock 0" "ArrayBuffer []" SUBJECT]
  have c1: "detectedSubject (parseExcelData exampleRuntime (gridLibrary ?g) (fixedClock 0)
      (ArrayBuffer []) SUBJECT) = Some [84, 111, 225, 110]"
    by blast
  with detectedSubject_closed_set
    [of exampleRuntime "gridLibrary ?g" "fixedClock 0" "ArrayBuffer []" SUBJECT]
  have c2: "[84, 111, 225, 110] \<in> set subjectLabels"
    by blast
  from h n detectedSubject_closed_set
    [of exampleRuntime "gridLibrary ?h" "fixedClock 0" "ArrayBuffer []" SUBJECT]
  have c3: "detectedSubject (parseExcelData exampleRuntime (gridLibrary ?h) (fixedClock 0)
      (ArrayBuffer []) SUBJECT) = None"
    by blast
  from i c1 c2 c3 show ?thesis by blast
qed

text \<open>
  Claim C10. The detected subject depends on the first five rows only: two workbooks
  whose grids agree on their first five rows give the same detected subject, whatever
  the other rows, the role and the clock.
\<close>

theorem detectedSubject_first_five_rows:
  "rawDataOf lib1 data1 = Some rows1 \<Longrightarrow> rawDataOf lib2 data2 = Some rows2 \<Longrightarrow>
   take 5 rows1 = take 5 rows2 \<Longrightarrow>
   detectedSubject (parseExcelData rt lib1 clock1 data1 role1) =
   detectedSubject (parseExcelData rt lib2 clock2 data2 role2)"
proof -
  assume r1: "rawDataOf lib1 data1 = Some rows1" and r2: "rawDataOf lib2 data2 = Some rows2"
    and eq: "take 5 rows1 = take 5 rows2"
  have "rows1 = [] \<longleftrightarrow> take 5 rows1 = []" by simp
  also have "\<dots> \<longleftrightarrow> take 5 rows2 = []" using eq by simp
  also have "\<dots> \<longleftrightarrow> rows2 = []" by simp
  finally have "rows1 = [] \<longleftrightarrow> rows2 = []" .
  with r1 r2 eq show ?thesis
    by (simp add: parseExcelData_rawData)
qed

text \<open>Two grids that differ in their sixth row, read in two different roles.\<close>

theorem detectedSubject_first_five_rows_witness:
  "take 5 [[Text [77, 244, 110, 32, 84, 111, 225, 110]], [], [], [], [], [Text [49], Text [78, 103, 117, 121, 7877, 110, 32, 86, 259, 110, 32, 65, 110], Text [56, 46, 53]]] =
   take 5 [[Text [77, 244, 110, 32, 84, 111, 225, 110]], [], [], [], [], [Text [84, 105, 110, 32, 104, 7885, 99]]] \<and>
   detectedSubject (parseExcelData exampleRuntime
      (gridLibrary [[Text [77, 244, 110, 32, 84, 111, 225, 110]], [], [], [], [], [Text [49], Text [78, 103, 117, 121, 7877, 110, 32, 86, 259, 110, 32, 65, 110], Text [56, 46, 53]]])
      (fixedClock 0) (ArrayBuffer []) SUBJECT) =
   detectedSubject (parseExcelData exampleRuntime
      (gridLibrary [[Text [77, 244, 110, 32, 84, 111, 225, 110]], [], [], [], [], [Text [84, 105, 110, 32, 104, 7885, 99]]])
      (fixedClock 0) (ArrayBuffer []) HOMEROOM)"
proof -
  let ?g = "[[Text [77, 244, 110, 32, 84, 111, 225, 110]], [], [], [], [], [Text [49], Text [78, 103, 117, 121, 7877, 110, 32, 86, 259, 110, 32, 65, 110], Text [56, 46, 53]]]"
  let ?h = "[[Text [77, 244, 110, 32, 84, 111, 225, 110]], [], [], [], [], [Text [84, 105, 110, 32, 104, 7885, 99]]]"
  have g: "rawDataOf (gridLibrary ?g) (ArrayBuffer []) = Some ?g"
    by (simp add: grid_eval)
  have h: "rawDataOf (gridLibrary ?h) (ArrayBuffer []) = Some ?h"
    by (simp add: grid_eval)
  have t: "take 5 ?g = take 5 ?h"
    by simp
  from detectedSubject_first_five_rows [OF g h t, of exampleRuntime "fixedClock 0" SUBJECT "fixedClock 0" HOMEROOM] t
  show ?thesis by blast
qed

section \<open>Determinism\<close>

lemma processRow_clock:
  "map_option contentOf (processRow rt role now1 idx row) =
   map_option contentOf (processRow rt role now2 idx row)"
  by (simp add: processRow_def contentOf_def Let_def split: prod.splits)

lemma forEachRow_clock:
  "map contentOf (forEachRow rt role clock1 rows k []) =
   map contentOf (forEachRow rt role clock2 rows k [])"
proof (induction rows arbitrary: k)
  case Nil
  show ?case by simp
next
  case (Cons row rows)
  have "map contentOf (case processRow rt role (clock1 k) k row of None \<Rightarrow> [] | Some st \<Rightarrow> [st]) =
        map contentOf (case processRow rt role (clock2 k) k row of None \<Rightarrow> [] | Some st \<Rightarrow> [st])"
    using processRow_clock [of rt role "clock1 k" k row "clock2 k"]
    by (cases "processRow rt role (clock1 k) k row"; cases "processRow rt role (clock2 k) k row")
       simp_all
  with Cons.IH [of "k + 1"] show ?case
    by (simp only: forEachRow_Cons map_append)
qed

text \<open>
  Claim C8. Two runs of \<open>parseExcelData\<close> on the same input and role, whatever the clock
  of each shows, return lists of students of the same length that agree, record by
  record, on every field but the identifier, and the same detected subject.
\<close>

theorem parseExcelData_deterministic:
  "length (students (parseExcelData rt lib clock1 data role)) =
     length (students (parseExcelData rt lib clock2 data role)) \<and>
   map contentOf (students (parseExcelData rt lib clock1 data role)) =
     map contentOf (students (parseExcelData rt lib clock2 data role)) \<and>
   detectedSubject (parseExcelData rt lib clock1 data role) =
     detectedSubject (parseExcelData rt lib clock2 data role)"
proof -
  have m: "map contentOf (students (parseExcelData rt lib clock1 data role)) =
     map contentOf (students (parseExcelData rt lib clock2 data role))"
    using forEachRow_clock [of rt role clock1 _ 0 clock2]
    by (simp add: parseExcelData_rawData split: option.splits)
  have d: "detectedSubject (parseExcelData rt lib clock1 data role) =
     detectedSubject (parseExcelData rt lib clock2 data role)"
    by (simp add: parseExcelData_rawData split: option.splits)
  from m have "length (map contentOf (students (parseExcelData rt lib clock1 data role))) =
     length (map contentOf (students (parseExcelData rt lib clock2 data role)))"
    by (rule arg_cong)
  then have "length (students (parseExcelData rt lib clock1 data role)) =
     length (students (parseExcelData rt lib clock2 data role))"
    by simp
  with m d show ?thesis by blast
qed

text \<open>
  One roster row read at time 1 and at time 2: the identifiers differ and the contents
  are equal.
\<close>

theorem parseExcelData_deterministic_witness:
  "map ident (students (parseExcelData exampleRuntime
      (gridLibrary [[Text [49], Text [78, 103, 117, 121, 7877, 110, 32, 86, 259, 110, 32, 65, 110], Text [56, 46, 53]]]) (fixedClock 1) (ArrayBuffer []) SUBJECT))
     = [[115, 116, 117, 100, 101, 110, 116, 45, 120, 108, 115, 45, 49, 45, 48]] \<and>
   map ident (students (parseExcelData exampleRuntime
      (gridLibrary [[Text [49], Text [78, 103, 117, 121, 7877, 110, 32, 86, 259, 110, 32, 65, 110], Text [56, 46, 53]]]) (fixedClock 2) (ArrayBuffer []) SUBJECT))
     = [[115, 116, 117, 100, 101, 110, 116, 45, 120, 108, 115, 45, 50, 45, 48]] \<and>
   map contentOf (students (parseExcelData exampleRuntime
      (gridLibrary [[Text [49], Text [78, 103, 117, 121, 7877, 110, 32, 86, 259, 110, 32, 65, 110], Text [56, 46, 53]]]) (fixedClock 1) (ArrayBuffer []) SUBJECT)) =
   map contentOf (students (parseExcelData exampleRuntime
      (gridLibrary [[Text [49], Text [78, 103, 117, 121, 7877, 110, 32, 86, 259, 110, 32, 65, 110], Text [56, 46, 53]]]) (fixedClock 2) (ArrayBuffer []) SUBJECT))"
proof -
  let ?g = "[[Text [49], Text [78, 103, 117, 121, 7877, 110, 32, 86, 259, 110, 32, 65, 110], Text [56, 46, 53]]]"
  have a: "map ident (students (parseExcelData exampleRuntime (gridLibrary ?g) (fixedClock 1)
      (ArrayBuffer []) SUBJECT)) = [[115, 116, 117, 100, 101, 110, 116, 45, 120, 108, 115, 45, 49, 45, 48]]"
    by (simp add: parseExcelData_rawData grid_eval row_eval)
  have b: "map ident (students (parseExcelData exampleRuntime (gridLibrary ?g) (fixedClock 2)
      (ArrayBuffer []) SUBJECT)) = [[115, 116, 117, 100, 101, 110, 116, 45, 120, 108, 115, 45, 50, 45, 48]]"
    by (simp add: parseExcelData_rawData grid_eval row_eval)
  from a b parseExcelData_deterministic
    [of exampleRuntime "gridLibrary ?g" "fixedClock 1" "ArrayBuffer []" SUBJECT "fixedClock 2"]
  show ?thesis by blast
qed

section \<open>The subject teacher's scan\<close>

text \<open>
  Claim C1, as amended. For every record \<open>parseExcelData\<close> emits in the role SUBJECT
  there is a row of the grid it comes from, and its score and rating are decided by the
  cells strictly right of the end of the name, visited from the last one backward: the
  search stops at the first cell that is a score cell (not blank, a number in [0, 10])
  or a rating cell (not blank, not a number, one of the rating codes), whichever comes
  first. A score cell sets \<open>subjectScore\<close>, a rating cell sets \<open>subjectRating\<close>, and at
  most one of the two is set. A rating cell right of every score cell therefore wins
  over them.
\<close>

theorem subject_scan_first_match:
  "st \<in> set (students (parseExcelData rt lib clock data SUBJECT)) \<Longrightarrow>
   \<exists>rows i. rawDataOf lib data = Some rows \<and> i < length rows \<and>
     processRow rt SUBJECT (clock i) i (rows ! i) = Some st \<and>
     (subjectScore st, subjectRating st) =
       firstMatch rt (rev (cellsAfter (rows ! i) (nameEndIndexOf rt (rows ! i)))) \<and>
     (subjectScore st = None \<or> subjectRating st = None)"
proof -
  assume "st \<in> set (students (parseExcelData rt lib clock data SUBJECT))"
  from students_member [OF this] obtain rows i where
    r: "rawDataOf lib data = Some rows" "i < length rows"
    and p: "processRow rt SUBJECT (clock i) i (rows ! i) = Some st"
    by blast
  let ?row = "rows ! i"
  obtain sc ra where f: "firstMatch rt (rev (cellsAfter ?row (nameEndIndexOf rt ?row))) = (sc, ra)"
    by (cases "firstMatch rt (rev (cellsAfter ?row (nameEndIndexOf rt ?row)))")
  from p f have "subjectScore st = sc \<and> subjectRating st = ra"
    by (auto simp add: processRow_SUBJECT split: if_splits)
  moreover from f have "sc = None \<or> ra = None"
    by (rule firstMatch_at_most_one)
  ultimately show ?thesis
    using r p f by auto
qed

text \<open>The row 1, Lan Anh, 8.5, K: the record has the rating K, the first match from the right.\<close>

theorem subject_scan_first_match_witness:
  "\<lparr>ident = [115, 116, 117, 100, 101, 110, 116, 45, 120, 108, 115, 45, 48, 45, 48], name = [76, 97, 110, 32, 65, 110, 104], comment = [], isProcessing = False,
     subjectScore = None, subjectRating = Some [75], academicResult = None,
     conductRating = None, absences = None\<rparr>
     \<in> set (students (parseExcelData exampleRuntime
          (gridLibrary [[Text [49], Text [76, 97, 110, 32, 65, 110, 104], Text [56, 46, 53], Text [75]]])
          (fixedClock 0) (ArrayBuffer []) SUBJECT)) \<and>
   (\<exists>rows i.
      rawDataOf (gridLibrary [[Text [49], Text [76, 97, 110, 32, 65, 110, 104], Text [56, 46, 53], Text [75]]])
        (ArrayBuffer []) = Some rows \<and> i < length rows \<and>
      (None, Some [75]) =
        firstMatch exampleRuntime (rev (cellsAfter (rows ! i) (nameEndIndexOf exampleRuntime (rows ! i)))))"
proof -
  let ?g = "[[Text [49], Text [76, 97, 110, 32, 65, 110, 104], Text [56, 46, 53], Text [75]]]"
  let ?st = "\<lparr>ident = [115, 116, 117, 100, 101, 110, 116, 45, 120, 108, 115, 45, 48, 45, 48], name = [76, 97, 110, 32, 65, 110, 104], comment = [], isProcessing = False,
     subjectScore = None, subjectRating = Some [75], academicResult = None,
     conductRating = None, absences = None\<rparr>"
  have m: "?st \<in> set (students (parseExcelData exampleRuntime (gridLibrary ?g)
      (fixedClock 0) (ArrayBuffer []) SUBJECT))"
    by (simp add: parseExcelData_rawData grid_eval row_eval)
  from subject_scan_first_match [OF m] have
    "\<exists>rows i. rawDataOf (gridLibrary ?g) (ArrayBuffer []) = Some rows \<and> i < length rows \<and>
      (subjectScore ?st, subjectRating ?st) =
        firstMatch exampleRuntime (rev (cellsAfter (rows ! i) (nameEndIndexOf exampleRuntime (rows ! i))))"
    by blast
  then have "\<exists>rows i. rawDataOf (gridLibrary ?g) (ArrayBuffer []) = Some rows \<and> i < length rows \<and>
      (None, Some [75]) =
        firstMatch exampleRuntime (rev (cellsAfter (rows ! i) (nameEndIndexOf exampleRuntime (rows ! i))))"
    by simp
  with m show ?thesis by blast
qed

text \<open>
  Claim C1 as it is stated gives the score priority over the whole row: the rating is
  set only when no cell right of the name is a score cell. In the row 1, Lan Anh, 8.5, K
  the cell 8.5 is a score cell right of the name, which ends at index 1, and a search
  with that priority gives the score 8.5; the record emitted has the rating K and no
  score.
\<close>

theorem subject_rating_before_score_counterexample:
  "students (parseExcelData exampleRuntime
      (gridLibrary [[Text [49], Text [76, 97, 110, 32, 65, 110, 104], Text [56, 46, 53], Text [75]]])
      (fixedClock 0) (ArrayBuffer []) SUBJECT) =
     [\<lparr>ident = [115, 116, 117, 100, 101, 110, 116, 45, 120, 108, 115, 45, 48, 45, 48], name = [76, 97, 110, 32, 65, 110, 104], comment = [], isProcessing = False,
       subjectScore = None, subjectRating = Some [75], academicResult = None,
       conductRating = None, absences = None\<rparr>] \<and>
   nameEndIndexOf exampleRuntime [Text [49], Text [76, 97, 110, 32, 65, 110, 104], Text [56, 46, 53], Text [75]] = 1 \<and>
   cellsAfter [Text [49], Text [76, 97, 110, 32, 65, 110, 104], Text [56, 46, 53], Text [75]] 1 = [Text [56, 46, 53], Text [75]] \<and>
   isScoreCell exampleRuntime (Text [56, 46, 53]) \<and>
   scoreThenRating exampleRuntime (rev [Text [56, 46, 53], Text [75]]) = (Some (Fin (17 / 2)), None)"
  by (simp add: parseExcelData_rawData grid_eval row_eval scan_eval)




section \<open>The final validity check\<close>

text \<open>
  The check in terms of the flag \<open>hasIndex\<close> that the code computes from the first
  cell. In either role, every record emitted comes from a row for which \<open>hasIndex\<close>
  holds or has at least one of the five data fields set. A row for which \<open>hasIndex\<close>
  fails and that has no data cell of its role right of the name gives no record.
  Conversely, in the role SUBJECT, a row of the grid for which \<open>hasIndex\<close> holds, whose
  name is not rejected, and that has no score or rating cell right of the name gives a
  record with neither score nor rating.
\<close>

theorem evidence_gate:
  "(\<forall>st. st \<in> set (students (parseExcelData rt lib clock data role)) \<longrightarrow>
      (\<exists>rows i. rawDataOf lib data = Some rows \<and> i < length rows \<and>
         processRow rt role (clock i) i (rows ! i) = Some st \<and>
         (hasIndex (rows ! i) \<or> subjectScore st \<noteq> None \<or> subjectRating st \<noteq> None \<or>
          academicResult st \<noteq> None \<or> conductRating st \<noteq> None \<or> absences st \<noteq> None))) \<and>
   (\<forall>row now idx. \<not> hasIndex row \<and>
      (role = SUBJECT \<longrightarrow>
         (\<forall>c \<in> set (cellsAfter row (nameEndIndexOf rt row)).
            \<not> isScoreCell rt c \<and> \<not> isRatingCell rt c)) \<and>
      (role = HOMEROOM \<longrightarrow>
         (\<forall>c \<in> set (cellsAfter row (nameEndIndexOf rt row)).
            \<not> isHomeroomRatingCell rt c \<and> \<not> isAbsenceCell rt c)) \<longrightarrow>
      processRow rt role now idx row = None) \<and>
   (\<forall>rows i. rawDataOf lib data = Some rows \<and> i < length rows \<and> hasIndex (rows ! i) \<and>
      rows ! i \<noteq> [] \<and> \<not> nameRejected rt (fullNameOf rt (rows ! i)) \<and>
      (\<forall>c \<in> set (cellsAfter (rows ! i) (nameEndIndexOf rt (rows ! i))).
         \<not> isScoreCell rt c \<and> \<not> isRatingCell rt c) \<longrightarrow>
      \<lparr>ident = xlsIdent (clock i) i, name = fullNameOf rt (rows ! i), comment = [],
        isProcessing = False, subjectScore = None, subjectRating = None,
        academicResult = None, conductRating = None, absences = None\<rparr>
        \<in> set (students (parseExcelData rt lib clock data SUBJECT)))"
proof (intro conjI allI impI)
  fix st
  assume "st \<in> set (students (parseExcelData rt lib clock data role))"
  from students_member [OF this] obtain rows i where
    r: "rawDataOf lib data = Some rows" "i < length rows"
    and p: "processRow rt role (clock i) i (rows ! i) = Some st"
    by blast
  have "hasIndex (rows ! i) \<or> subjectScore st \<noteq> None \<or> subjectRating st \<noteq> None \<or>
      academicResult st \<noteq> None \<or> conductRating st \<noteq> None \<or> absences st \<noteq> None"
  proof (cases role)
    case SUBJECT
    with p show ?thesis
      by (auto simp add: processRow_SUBJECT split: if_splits prod.splits)
  next
    case HOMEROOM
    with p show ?thesis
      by (auto simp add: processRow_HOMEROOM split: if_splits prod.splits)
  qed
  with r p show "\<exists>rows i. rawDataOf lib data = Some rows \<and> i < length rows \<and>
         processRow rt role (clock i) i (rows ! i) = Some st \<and>
         (hasIndex (rows ! i) \<or> subjectScore st \<noteq> None \<or> subjectRating st \<noteq> None \<or>
          academicResult st \<noteq> None \<or> conductRating st \<noteq> None \<or> absences st \<noteq> None)"
    by blast
next
  fix row now idx
  assume h: "\<not> hasIndex row \<and>
      (role = SUBJECT \<longrightarrow>
         (\<forall>c \<in> set (cellsAfter row (nameEndIndexOf rt row)).
            \<not> isScoreCell rt c \<and> \<not> isRatingCell rt c)) \<and>
      (role = HOMEROOM \<longrightarrow>
         (\<forall>c \<in> set (cellsAfter row (nameEndIndexOf rt row)).
            \<not> isHomeroomRatingCell rt c \<and> \<not> isAbsenceCell rt c))"
  show "processRow rt role now idx row = None"
  proof (cases role)
    case SUBJECT
    with h have "firstMatch rt (rev (cellsAfter row (nameEndIndexOf rt row))) = (None, None)"
      by (intro firstMatch_none) simp
    with h SUBJECT show ?thesis
      by (simp add: processRow_SUBJECT)
  next
    case HOMEROOM
    with h have f: "filter (isHomeroomRatingCell rt) (cellsAfter row (nameEndIndexOf rt row)) = []"
      "filter (isAbsenceCell rt) (cellsAfter row (nameEndIndexOf rt row)) = []"
      by (simp_all add: filter_empty_conv)
    then have "ratingsIn rt (cellsAfter row (nameEndIndexOf rt row)) = []"
      "absencesIn rt (cellsAfter row (nameEndIndexOf rt row)) = None"
      by (simp_all add: ratingsIn_def absencesIn_def)
    with h HOMEROOM show ?thesis
      by (simp add: processRow_HOMEROOM assignRatings_def)
  qed
next
  fix rows i
  assume h: "rawDataOf lib data = Some rows \<and> i < length rows \<and> hasIndex (rows ! i) \<and>
      rows ! i \<noteq> [] \<and> \<not> nameRejected rt (fullNameOf rt (rows ! i)) \<and>
      (\<forall>c \<in> set (cellsAfter (rows ! i) (nameEndIndexOf rt (rows ! i))).
         \<not> isScoreCell rt c \<and> \<not> isRatingCell rt c)"
  let ?row = "rows ! i"
  from h have "firstMatch rt (rev (cellsAfter ?row (nameEndIndexOf rt ?row))) = (None, None)"
    by (intro firstMatch_none) simp
  with h have "processRow rt SUBJECT (clock i) i ?row =
      Some \<lparr>ident = xlsIdent (clock i) i, name = fullNameOf rt ?row, comment = [],
        isProcessing = False, subjectScore = None, subjectRating = None,
        academicResult = None, conductRating = None, absences = None\<rparr>"
    by (simp add: processRow_SUBJECT)
  with h show "\<lparr>ident = xlsIdent (clock i) i, name = fullNameOf rt ?row, comment = [],
        isProcessing = False, subjectScore = None, subjectRating = None,
        academicResult = None, conductRating = None, absences = None\<rparr>
        \<in> set (students (parseExcelData rt lib clock data SUBJECT))"
    using students_emits [of lib data rows i rt SUBJECT clock] by blast
qed

text \<open>
  The row Danh s<U+00E1>ch l<U+1EDB>p, 15 has a name but neither row number nor data and gives
  nothing; the row 1, Nguy<U+1EC5>n V<U+0103>n An, 15 has a row number and gives a record with
  neither score nor rating.
\<close>

theorem evidence_gate_witness:
  "processRow exampleRuntime SUBJECT 0 0 [Text [68, 97, 110, 104, 32, 115, 225, 99, 104, 32, 108, 7899, 112], Text [49, 53]] = None \<and>
   fullNameOf exampleRuntime [Text [49], Text [78, 103, 117, 121, 7877, 110, 32, 86, 259, 110, 32, 65, 110], Text [49, 53]] =
     [78, 103, 117, 121, 7877, 110, 32, 86, 259, 110, 32, 65, 110] \<and>
   \<lparr>ident = xlsIdent 0 0,
     name = fullNameOf exampleRuntime [Text [49], Text [78, 103, 117, 121, 7877, 110, 32, 86, 259, 110, 32, 65, 110], Text [49, 53]],
     comment = [], isProcessing = False, subjectScore = None, subjectRating = None,
     academicResult = None, conductRating = None, absences = None\<rparr>
     \<in> set (students (parseExcelData exampleRuntime
          (gridLibrary [[Text [49], Text [78, 103, 117, 121, 7877, 110, 32, 86, 259, 110, 32, 65, 110], Text [49, 53]]])
          (fixedClock 0) (ArrayBuffer []) SUBJECT))"
proof -
  let ?r = "[Text [68, 97, 110, 104, 32, 115, 225, 99, 104, 32, 108, 7899, 112], Text [49, 53]]"
  let ?row = "[Text [49], Text [78, 103, 117, 121, 7877, 110, 32, 86, 259, 110, 32, 65, 110], Text [49, 53]]"
  have e: "nameEndIndexOf exampleRuntime ?r = 0" "nameEndIndexOf exampleRuntime ?row = 1"
    by (simp_all add: nameEndIndexOf_def row_eval)
  have n: "\<not> hasIndex ?r \<and>
      (SUBJECT = SUBJECT \<longrightarrow>
         (\<forall>c \<in> set (cellsAfter ?r (nameEndIndexOf exampleRuntime ?r)).
            \<not> isScoreCell exampleRuntime c \<and> \<not> isRatingCell exampleRuntime c)) \<and>
      (SUBJECT = HOMEROOM \<longrightarrow>
         (\<forall>c \<in> set (cellsAfter ?r (nameEndIndexOf exampleRuntime ?r)).
            \<not> isHomeroomRatingCell exampleRuntime c \<and> \<not> isAbsenceCell exampleRuntime c))"
    by (simp add: e) (simp add: scan_eval row_eval)
  have y: "rawDataOf (gridLibrary [?row]) (ArrayBuffer []) = Some [?row] \<and> 0 < length [?row] \<and>
      hasIndex ([?row] ! 0) \<and> [?row] ! 0 \<noteq> [] \<and>
      \<not> nameRejected exampleRuntime (fullNameOf exampleRuntime ([?row] ! 0)) \<and>
      (\<forall>c \<in> set (cellsAfter ([?row] ! 0) (nameEndIndexOf exampleRuntime ([?row] ! 0))).
         \<not> isScoreCell exampleRuntime c \<and> \<not> isRatingCell exampleRuntime c)"
    by (simp add: e) (simp add: grid_eval scan_eval row_eval)
  have f: "fullNameOf exampleRuntime ?row = [78, 103, 117, 121, 7877, 110, 32, 86, 259, 110, 32, 65, 110]"
    by (simp add: fullNameOf_def row_eval)
  note g = evidence_gate [of exampleRuntime "gridLibrary [?row]" "fixedClock 0" "ArrayBuffer []" SUBJECT]
  from g n have c1: "processRow exampleRuntime SUBJECT 0 0 ?r = None"
    by blast
  from g y have "\<lparr>ident = xlsIdent ((fixedClock 0) 0) 0,
     name = fullNameOf exampleRuntime ([?row] ! 0),
     comment = [], isProcessing = False, subjectScore = None, subjectRating = None,
     academicResult = None, conductRating = None, absences = None\<rparr>
     \<in> set (students (parseExcelData exampleRuntime (gridLibrary [?row])
          (fixedClock 0) (ArrayBuffer []) SUBJECT))"
    by blast
  then have c2: "\<lparr>ident = xlsIdent 0 0, name = fullNameOf exampleRuntime ?row,
     comment = [], isProcessing = False, subjectScore = None, subjectRating = None,
     academicResult = None, conductRating = None, absences = None\<rparr>
     \<in> set (students (parseExcelData exampleRuntime (gridLibrary [?row])
          (fixedClock 0) (ArrayBuffer []) SUBJECT))"
    by (simp add: fixedClock_def)
  from c1 f c2 show ?thesis by blast
qed

text \<open>
  Claim C3. The claim asks for a positive integer smaller than 1000 in the first cell,
  and the check of a first cell that is a string does ask for digits only. For a first
  cell that is a number the code tests the range and nothing else. The row
  1.5, Nguy<U+1EC5>n V<U+0103>n An, whose first cell is the number 1.5, gives a record although
  its first cell does not hold an integer and no data field is set; the same row with
  the text 1.5 in its first cell gives no record.
\<close>

theorem fractional_row_number_emits:
  "students (parseExcelData exampleRuntime
      (gridLibrary [[Number (Fin (3 / 2)), Text [78, 103, 117, 121, 7877, 110, 32, 86, 259, 110, 32, 65, 110]]])
      (fixedClock 0) (ArrayBuffer []) SUBJECT) =
     [\<lparr>ident = [115, 116, 117, 100, 101, 110, 116, 45, 120, 108, 115, 45, 48, 45, 48], name = [78, 103, 117, 121, 7877, 110, 32, 86, 259, 110, 32, 65, 110], comment = [], isProcessing = False,
       subjectScore = None, subjectRating = None, academicResult = None,
       conductRating = None, absences = None\<rparr>] \<and>
   \<not> holdsRowNumber (cellAt [Number (Fin (3 / 2)), Text [78, 103, 117, 121, 7877, 110, 32, 86, 259, 110, 32, 65, 110]] 0) \<and>
   hasIndex [Number (Fin (3 / 2)), Text [78, 103, 117, 121, 7877, 110, 32, 86, 259, 110, 32, 65, 110]] \<and>
   \<not> hasIndex [Text [49, 46, 53], Text [78, 103, 117, 121, 7877, 110, 32, 86, 259, 110, 32, 65, 110]] \<and>
   students (parseExcelData exampleRuntime
      (gridLibrary [[Text [49, 46, 53], Text [78, 103, 117, 121, 7877, 110, 32, 86, 259, 110, 32, 65, 110]]])
      (fixedClock 0) (ArrayBuffer []) SUBJECT) = []"
proof -
  have fl: "\<lfloor>3 / 2 :: rat\<rfloor> = 1"
    by (simp add: floor_eq_iff)
  show ?thesis
    by (simp add: parseExcelData_rawData grid_eval row_eval holdsRowNumber_def fl)
qed

section \<open>The homeroom teacher's scan\<close>

text \<open>
  Claim C2. For every record \<open>parseExcelData\<close> emits in the role HOMEROOM there is a row
  of the grid it comes from such that, over the cells right of the end of the name taken
  from left to right: the academic result is the first rating found and the conduct
  rating the second (further ratings are dropped), and the absences are the value of the
  last cell that is a string of digits with a value at least 0 and below 60 and is not a
  rating cell. A rating cell is never an absence cell. The row
  3, L<U+00EA> V<U+0103>n C<U+01B0><U+1EDD>ng, T, <U+0110>, 2 gives the academic result T, the conduct rating
  <U+0110> and 2 absences.
\<close>

theorem homeroom_scan:
  "(\<forall>st. st \<in> set (students (parseExcelData rt lib clock data HOMEROOM)) \<longrightarrow>
      (\<exists>rows i. rawDataOf lib data = Some rows \<and> i < length rows \<and>
         processRow rt HOMEROOM (clock i) i (rows ! i) = Some st \<and>
         academicResult st =
           (if ratingsIn rt (cellsAfter (rows ! i) (nameEndIndexOf rt (rows ! i))) = [] then None
            else Some (ratingsIn rt (cellsAfter (rows ! i) (nameEndIndexOf rt (rows ! i))) ! 0)) \<and>
         conductRating st =
           (if length (ratingsIn rt (cellsAfter (rows ! i) (nameEndIndexOf rt (rows ! i)))) < 2
            then None
            else Some (ratingsIn rt (cellsAfter (rows ! i) (nameEndIndexOf rt (rows ! i))) ! 1)) \<and>
         absences st = absencesIn rt (cellsAfter (rows ! i) (nameEndIndexOf rt (rows ! i))))) \<and>
   (\<forall>c. isHomeroomRatingCell rt c \<longrightarrow> \<not> isAbsenceCell rt c) \<and>
   students (parseExcelData exampleRuntime
      (gridLibrary [[Text [51], Text [76, 234, 32, 86, 259, 110, 32, 67, 432, 7901, 110, 103], Text [84], Text [272], Text [50]]])
      (fixedClock 0) (ArrayBuffer []) HOMEROOM) =
     [\<lparr>ident = [115, 116, 117, 100, 101, 110, 116, 45, 120, 108, 115, 45, 48, 45, 48], name = [76, 234, 32, 86, 259, 110, 32, 67, 432, 7901, 110, 103], comment = [], isProcessing = False,
       subjectScore = None, subjectRating = None, academicResult = Some [84],
       conductRating = Some [272], absences = Some (Fin 2)\<rparr>]"
proof (intro conjI allI impI)
  fix st
  assume "st \<in> set (students (parseExcelData rt lib clock data HOMEROOM))"
  from students_member [OF this] obtain rows i where
    r: "rawDataOf lib data = Some rows" "i < length rows"
    and p: "processRow rt HOMEROOM (clock i) i (rows ! i) = Some st"
    by blast
  let ?cells = "cellsAfter (rows ! i) (nameEndIndexOf rt (rows ! i))"
  from p have "academicResult st = (if ratingsIn rt ?cells = [] then None
            else Some (ratingsIn rt ?cells ! 0)) \<and>
         conductRating st = (if length (ratingsIn rt ?cells) < 2 then None
            else Some (ratingsIn rt ?cells ! 1)) \<and>
         absences st = absencesIn rt ?cells"
    by (auto simp add: processRow_HOMEROOM assignRatings_first_two split: if_splits)
  with r p show "\<exists>rows i. rawDataOf lib data = Some rows \<and> i < length rows \<and>
         processRow rt HOMEROOM (clock i) i (rows ! i) = Some st \<and>
         academicResult st =
           (if ratingsIn rt (cellsAfter (rows ! i) (nameEndIndexOf rt (rows ! i))) = [] then None
            else Some (ratingsIn rt (cellsAfter (rows ! i) (nameEndIndexOf rt (rows ! i))) ! 0)) \<and>
         conductRating st =
           (if length (ratingsIn rt (cellsAfter (rows ! i) (nameEndIndexOf rt (rows ! i)))) < 2
            then None
            else Some (ratingsIn rt (cellsAfter (rows ! i) (nameEndIndexOf rt (rows ! i))) ! 1)) \<and>
         absences st = absencesIn rt (cellsAfter (rows ! i) (nameEndIndexOf rt (rows ! i)))"
    by blast
next
  fix c assume "isHomeroomRatingCell rt c"
  then show "\<not> isAbsenceCell rt c"
    by (simp add: isAbsenceCell_def)
next
  show "students (parseExcelData exampleRuntime
      (gridLibrary [[Text [51], Text [76, 234, 32, 86, 259, 110, 32, 67, 432, 7901, 110, 103], Text [84], Text [272], Text [50]]])
      (fixedClock 0) (ArrayBuffer []) HOMEROOM) =
     [\<lparr>ident = [115, 116, 117, 100, 101, 110, 116, 45, 120, 108, 115, 45, 48, 45, 48], name = [76, 234, 32, 86, 259, 110, 32, 67, 432, 7901, 110, 103], comment = [], isProcessing = False,
       subjectScore = None, subjectRating = None, academicResult = Some [84],
       conductRating = Some [272], absences = Some (Fin 2)\<rparr>]"
    by (simp add: parseExcelData_rawData grid_eval row_eval)
qed

text \<open>
  The row 4, L<U+00EA> H<U+00F2>a, K, 7, t<U+1ED1>t, 60, 5, <U+0110>, x: three ratings are found and the
  third is dropped; of the numbers 7, 60 and 5 the last one below 60 is kept.
\<close>

theorem homeroom_scan_witness:
  "ratingsIn exampleRuntime
     [Text [75], Text [55], Text [116, 7889, 116], Text [54, 48], Text [53], Text [272], Text [120]] =
     [[75], [84, 7888, 84], [272]] \<and>
   absencesIn exampleRuntime
     [Text [75], Text [55], Text [116, 7889, 116], Text [54, 48], Text [53], Text [272], Text [120]] =
     Some (Fin 5) \<and>
   (\<exists>rows i.
      rawDataOf (gridLibrary [[Text [52], Text [76, 234, 32, 72, 242, 97], Text [75], Text [55], Text [116, 7889, 116],
          Text [54, 48], Text [53], Text [272], Text [120]]]) (ArrayBuffer []) = Some rows \<and>
      i < length rows \<and>
      processRow exampleRuntime HOMEROOM ((fixedClock 0) i) i (rows ! i) =
        Some \<lparr>ident = [115, 116, 117, 100, 101, 110, 116, 45, 120, 108, 115, 45, 48, 45, 48], name = [76, 234, 32, 72, 242, 97], comment = [], isProcessing = False,
          subjectScore = None, subjectRating = None, academicResult = Some [75],
          conductRating = Some [84, 7888, 84], absences = Some (Fin 5)\<rparr>)"
proof -
  let ?g = "[[Text [52], Text [76, 234, 32, 72, 242, 97], Text [75], Text [55], Text [116, 7889, 116],
          Text [54, 48], Text [53], Text [272], Text [120]]]"
  let ?st = "\<lparr>ident = [115, 116, 117, 100, 101, 110, 116, 45, 120, 108, 115, 45, 48, 45, 48], name = [76, 234, 32, 72, 242, 97], comment = [], isProcessing = False,
          subjectScore = None, subjectRating = None, academicResult = Some [75],
          conductRating = Some [84, 7888, 84], absences = Some (Fin 5)\<rparr>"
  have m: "?st \<in> set (students (parseExcelData exampleRuntime (gridLibrary ?g)
      (fixedClock 0) (ArrayBuffer []) HOMEROOM))"
    by (simp add: parseExcelData_rawData grid_eval row_eval)
  have a: "ratingsIn exampleRuntime
     [Text [75], Text [55], Text [116, 7889, 116], Text [54, 48], Text [53], Text [272], Text [120]] =
     [[75], [84, 7888, 84], [272]]"
    by (simp add: scan_eval row_eval)
  have b: "absencesIn exampleRuntime
     [Text [75], Text [55], Text [116, 7889, 116], Text [54, 48], Text [53], Text [272], Text [120]] =
     Some (Fin 5)"
    by (simp add: scan_eval row_eval)
  from m homeroom_scan [of exampleRuntime "gridLibrary ?g" "fixedClock 0" "ArrayBuffer []"]
  have "\<exists>rows i. rawDataOf (gridLibrary ?g) (ArrayBuffer []) = Some rows \<and> i < length rows \<and>
      processRow exampleRuntime HOMEROOM ((fixedClock 0) i) i (rows ! i) = Some ?st"
    by blast
  with a b show ?thesis by blast
qed

section \<open>The name span\<close>

lemma isNumeric_not_name: "isNumeric c \<Longrightarrow> \<not> isNamePart rt c"
proof (cases c)
  case (Text s)
  assume "isNumeric c"
  with Text have d: "trim s \<noteq> []" "list_all isDigit (trim s)"
    by (simp_all add: isNumeric_def allDigits_def)
  then obtain x xs where "trim s = x # xs" by (cases "trim s") auto
  with d have "hasDigit (trim s)"
    by (simp add: hasDigit_def)
  with Text show ?thesis
    by (simp add: isNamePart_def Let_def)
qed (simp_all add: isNamePart_def)

lemma cellAt_outside: "int (length row) \<le> i \<Longrightarrow> cellAt row i = Undefined"
  by (simp add: cellAt_def)

lemma undefined_not_name: "\<not> isNamePart rt Undefined"
  by (simp add: isNamePart_def)

lemma cells_from:
  "0 \<le> i \<Longrightarrow> i < int (length row) \<Longrightarrow>
   map (cellAt row) [i .. int (length row) - 1] =
     cellAt row i # map (cellAt row) [i + 1 .. int (length row) - 1]"
  by (simp add: upto_rec1)

lemma next_is_name:
  "0 \<le> i \<Longrightarrow>
   (map (cellAt row) [i + 1 .. int (length row) - 1] \<noteq> [] \<and>
    isNamePart rt (hd (map (cellAt row) [i + 1 .. int (length row) - 1]))) =
   isNamePart rt (cellAt row (i + 1))"
proof (cases "i + 1 < int (length row)")
  case True
  assume "0 \<le> i"
  with True show ?thesis
    using cells_from [of "i + 1" row] by simp
next
  case False
  then show ?thesis
    by (simp add: cellAt_outside undefined_not_name)
qed

lemma nameLoop_step_found:
  "i < int (length row) \<Longrightarrow> parts \<noteq> [] \<Longrightarrow>
   nameLoop rt row i parts e =
     (if isNamePart rt (cellAt row i)
      then nameLoop rt row (i + 1) (parts @ [cellText rt (cellAt row i)]) i
      else if isBlank rt (cellAt row i) \<and> isNamePart rt (cellAt row (i + 1))
      then nameLoop rt row (i + 1) parts e
      else (parts, e))"
  by (subst nameLoop.simps) (simp add: cellText_def)

lemma nameLoop_step_search:
  "i < int (length row) \<Longrightarrow>
   nameLoop rt row i [] e =
     (if isNamePart rt (cellAt row i)
      then nameLoop rt row (i + 1) [cellText rt (cellAt row i)] i
      else nameLoop rt row (i + 1) [] e)"
  by (subst nameLoop.simps) (auto simp add: cellText_def dest: isNumeric_not_name)

lemma nameLoop_found:
  "0 \<le> i \<Longrightarrow> parts \<noteq> [] \<Longrightarrow>
   nameLoop rt row i parts e =
     (parts @ map (cellText rt)
        (filter (isNamePart rt) (nameSpan rt (map (cellAt row) [i .. int (length row) - 1]))),
      if nameSpan rt (map (cellAt row) [i .. int (length row) - 1]) = [] then e
      else i + int (length (nameSpan rt (map (cellAt row) [i .. int (length row) - 1]))) - 1)"
proof (induction "nat (int (length row) - i)" arbitrary: i parts e)
  case 0
  then have "\<not> i < int (length row)" by simp
  then show ?case
    by (subst nameLoop.simps) simp
next
  case (Suc k)
  then have lt: "i < int (length row)" and k: "k = nat (int (length row) - (i + 1))"
    and i0: "0 \<le> i" "0 \<le> i + 1" and ne: "parts \<noteq> []"
    by simp_all
  let ?c = "cellAt row i"
  let ?rest = "map (cellAt row) [i + 1 .. int (length row) - 1]"
  note cf = cells_from [OF i0(1) lt]
  note nx = next_is_name [OF i0(1), of row rt]
  show ?case
  proof (cases "isNamePart rt ?c")
    case True
    have "nameLoop rt row i parts e = nameLoop rt row (i + 1) (parts @ [cellText rt ?c]) i"
      using True by (simp add: nameLoop_step_found [OF lt ne])
    also have "\<dots> = ((parts @ [cellText rt ?c]) @ map (cellText rt)
          (filter (isNamePart rt) (nameSpan rt ?rest)),
        if nameSpan rt ?rest = [] then i
        else i + 1 + int (length (nameSpan rt ?rest)) - 1)"
      by (rule Suc.hyps(1) [OF k i0(2)]) simp
    finally show ?thesis
      using True by (simp add: cf)
  next
    case False
    show ?thesis
    proof (cases "isBlank rt ?c \<and> isNamePart rt (cellAt row (i + 1))")
      case True
      then have sp: "nameSpan rt ?rest \<noteq> []"
        using nx by (cases ?rest) auto
      have "nameLoop rt row i parts e = nameLoop rt row (i + 1) parts e"
        using True False by (simp add: nameLoop_step_found [OF lt ne])
      also have "\<dots> = (parts @ map (cellText rt)
          (filter (isNamePart rt) (nameSpan rt ?rest)),
        if nameSpan rt ?rest = [] then e
        else i + 1 + int (length (nameSpan rt ?rest)) - 1)"
        by (rule Suc.hyps(1) [OF k i0(2) ne])
      finally show ?thesis
        using True False sp nx by (simp add: cf)
    next
      case nb: False
      have "nameLoop rt row i parts e = (parts, e)"
        using nb False by (auto simp add: nameLoop_step_found [OF lt ne])
      moreover have "nameSpan rt (map (cellAt row) [i .. int (length row) - 1]) = []"
        using nb False nx by (auto simp add: cf)
      ultimately show ?thesis by simp
    qed
  qed
qed

lemma nameLoop_search:
  "0 \<le> i \<Longrightarrow>
   nameLoop rt row i [] e =
     (map (cellText rt) (filter (isNamePart rt)
        (nameSpan rt (dropWhile (\<lambda>c. \<not> isNamePart rt c)
           (map (cellAt row) [i .. int (length row) - 1])))),
      if nameSpan rt (dropWhile (\<lambda>c. \<not> isNamePart rt c)
           (map (cellAt row) [i .. int (length row) - 1])) = [] then e
      else i + int (length (takeWhile (\<lambda>c. \<not> isNamePart rt c)
                  (map (cellAt row) [i .. int (length row) - 1])))
             + int (length (nameSpan rt (dropWhile (\<lambda>c. \<not> isNamePart rt c)
                  (map (cellAt row) [i .. int (length row) - 1])))) - 1)"
proof (induction "nat (int (length row) - i)" arbitrary: i e)
  case 0
  then have "\<not> i < int (length row)" by simp
  then show ?case
    by (subst nameLoop.simps) simp
next
  case (Suc k)
  then have lt: "i < int (length row)" and k: "k = nat (int (length row) - (i + 1))"
    and i0: "0 \<le> i" "0 \<le> i + 1"
    by simp_all
  let ?c = "cellAt row i"
  let ?rest = "map (cellAt row) [i + 1 .. int (length row) - 1]"
  note cf = cells_from [OF i0(1) lt]
  show ?case
  proof (cases "isNamePart rt ?c")
    case True
    have "nameLoop rt row i [] e = nameLoop rt row (i + 1) [cellText rt ?c] i"
      using True by (simp add: nameLoop_step_search [OF lt])
    also have "\<dots> = ([cellText rt ?c] @ map (cellText rt)
          (filter (isNamePart rt) (nameSpan rt ?rest)),
        if nameSpan rt ?rest = [] then i
        else i + 1 + int (length (nameSpan rt ?rest)) - 1)"
      by (rule nameLoop_found [OF i0(2)]) simp
    finally show ?thesis
      using True by (simp add: cf)
  next
    case False
    have "nameLoop rt row i [] e = nameLoop rt row (i + 1) [] e"
      using False by (simp add: nameLoop_step_search [OF lt])
    also note Suc.hyps(1) [OF k i0(2), of e]
    finally show ?thesis
      using False by (simp add: cf)
  qed
qed

text \<open>
  Claim C5. The name loop returns the trimmed texts of the name parts of the span, in
  order, and the index of the last cell of the span; the span starts at the first name
  part of the row and goes on while a cell is a name part or a blank cell immediately
  followed by a name part, and ends at the first cell that is neither. The full name is
  the trimmed space-join of those texts. The row 1, Nguy<U+1EC5>n, V<U+0103>n, An, 8.5 in the
  role SUBJECT gives exactly one record, named Nguy<U+1EC5>n V<U+0103>n An, with the score 8.5.
\<close>

theorem name_span:
  "nameLoop rt row 0 [] (- 1) =
     (map (cellText rt) (filter (isNamePart rt) (nameSpanOf rt row)),
      if nameSpanOf rt row = [] then - 1
      else int (length (leadOf rt row)) + int (length (nameSpanOf rt row)) - 1) \<and>
   fullNameOf rt row =
     trim (joinSpace (map (cellText rt) (filter (isNamePart rt) (nameSpanOf rt row)))) \<and>
   students (parseExcelData exampleRuntime
      (gridLibrary [[Text [49], Text [78, 103, 117, 121, 7877, 110], Text [86, 259, 110], Text [65, 110], Text [56, 46, 53]]])
      (fixedClock 0) (ArrayBuffer []) SUBJECT) =
     [\<lparr>ident = [115, 116, 117, 100, 101, 110, 116, 45, 120, 108, 115, 45, 48, 45, 48], name = [78, 103, 117, 121, 7877, 110, 32, 86, 259, 110, 32, 65, 110], comment = [], isProcessing = False,
       subjectScore = Some (Fin (17 / 2)), subjectRating = None, academicResult = None,
       conductRating = None, absences = None\<rparr>]"
proof (intro conjI)
  show l: "nameLoop rt row 0 [] (- 1) =
     (map (cellText rt) (filter (isNamePart rt) (nameSpanOf rt row)),
      if nameSpanOf rt row = [] then - 1
      else int (length (leadOf rt row)) + int (length (nameSpanOf rt row)) - 1)"
    using nameLoop_search [of 0 rt row "- 1"]
    by (simp add: nameSpanOf_def leadOf_def rowCells_def cellsAfter_def)
  show "fullNameOf rt row =
     trim (joinSpace (map (cellText rt) (filter (isNamePart rt) (nameSpanOf rt row))))"
    by (simp add: fullNameOf_def l)
  show "students (parseExcelData exampleRuntime
      (gridLibrary [[Text [49], Text [78, 103, 117, 121, 7877, 110], Text [86, 259, 110], Text [65, 110], Text [56, 46, 53]]])
      (fixedClock 0) (ArrayBuffer []) SUBJECT) =
     [\<lparr>ident = [115, 116, 117, 100, 101, 110, 116, 45, 120, 108, 115, 45, 48, 45, 48], name = [78, 103, 117, 121, 7877, 110, 32, 86, 259, 110, 32, 65, 110], comment = [], isProcessing = False,
       subjectScore = Some (Fin (17 / 2)), subjectRating = None, academicResult = None,
       conductRating = None, absences = None\<rparr>]"
    by (simp add: parseExcelData_rawData grid_eval row_eval)
qed

text \<open>
  A row with a hole inside the name and two blank cells after it: the hole is bridged,
  the span ends at the first of the two blanks, and Lan, further right, is not part of
  the name.
\<close>

theorem name_span_witness:
  "nameSpanOf exampleRuntime
     [Text [49], Text [78, 103, 117, 121, 7877, 110], Hole, Text [86, 259, 110], Text [65, 110], Text [], Text [32],
      Text [76, 97, 110], Text [56]] =
     [Text [78, 103, 117, 121, 7877, 110], Undefined, Text [86, 259, 110], Text [65, 110]] \<and>
   nameLoop exampleRuntime
     [Text [49], Text [78, 103, 117, 121, 7877, 110], Hole, Text [86, 259, 110], Text [65, 110], Text [], Text [32],
      Text [76, 97, 110], Text [56]] 0 [] (- 1) =
     ([[78, 103, 117, 121, 7877, 110], [86, 259, 110], [65, 110]], 4)"
proof -
  let ?row = "[Text [49], Text [78, 103, 117, 121, 7877, 110], Hole, Text [86, 259, 110], Text [65, 110], Text [], Text [32],
      Text [76, 97, 110], Text [56]]"
  have c: "rowCells ?row = [Text [49], Text [78, 103, 117, 121, 7877, 110], Undefined, Text [86, 259, 110], Text [65, 110],
      Text [], Text [32], Text [76, 97, 110], Text [56]]"
    by (simp add: rowCells_def cellsAfter_def cellAt_def upto.simps)
  have s: "nameSpanOf exampleRuntime ?row = [Text [78, 103, 117, 121, 7877, 110], Undefined, Text [86, 259, 110], Text [65, 110]]"
    by (simp add: nameSpanOf_def c) (simp add: row_eval)
  have d: "leadOf exampleRuntime ?row = [Text [49]]"
    by (simp add: leadOf_def c) (simp add: row_eval)
  have f: "map (cellText exampleRuntime) (filter (isNamePart exampleRuntime)
      [Text [78, 103, 117, 121, 7877, 110], Undefined, Text [86, 259, 110], Text [65, 110]]) = [[78, 103, 117, 121, 7877, 110], [86, 259, 110], [65, 110]]"
    by (simp add: cellText_def row_eval)
  from name_span [of exampleRuntime ?row] have
    "nameLoop exampleRuntime ?row 0 [] (- 1) =
     (map (cellText exampleRuntime) (filter (isNamePart exampleRuntime)
        (nameSpanOf exampleRuntime ?row)),
      if nameSpanOf exampleRuntime ?row = [] then - 1
      else int (length (leadOf exampleRuntime ?row)) +
           int (length (nameSpanOf exampleRuntime ?row)) - 1)"
    by blast
  then have "nameLoop exampleRuntime ?row 0 [] (- 1) = ([[78, 103, 117, 121, 7877, 110], [86, 259, 110], [65, 110]], 4)"
    by (simp only: s d f) simp
  with s show ?thesis by blast
qed

section \<open>The text path\<close>








end
